theory Spec2Isabelle
  imports Main
begin

section \<open>The logger of mfdlabs/node-logging\<close>

text \<open>
  A shallow embedding of the class \<open>Logger\<close> (the logger's index.ts) and of the enum
  \<open>LogLevel\<close> (log_level.ts).

  Conventions. A private member \<open>_x\<close> of the source is written \<open>p_x\<close>; a getter or
  setter of a property \<open>x\<close> is \<open>get_x\<close> or \<open>set_x\<close>; the six public log methods carry
  the prefix \<open>Logger_\<close>. Strings are lists of 8-bit characters. An instance method is a
  function of the instance and of the world outside the instances (console, file system,
  streams) that returns both, changed; a thrown value is returned beside them. An
  \<open>async\<close> method is modelled run to completion: a thrown value is then the reason its
  promise rejects with.
\<close>

subsection \<open>JavaScript values\<close>

datatype ErrorType = Error | ReferenceError | TypeError | RangeError | SyntaxError

text \<open>
  Thrown values. \<open>Thrown t m c\<close> is an instance of \<open>Error\<close> of class \<open>t\<close> with
  message \<open>m\<close> and the optional \<open>code\<close> of a \<open>NodeJS.ErrnoException\<close>; the other
  constructors are the values that are no instance of \<open>Error\<close>.
\<close>

datatype exn =
    Thrown ErrorType string "string option"
  | ThrownString string
  | ThrownUndefined
  | ThrownNull

text \<open>
  Arguments as a JavaScript caller can pass them. \<open>JFunction v\<close> is a function of no
  argument that returns \<open>v\<close>.
\<close>

datatype jsval =
    JUndefined
  | JNull
  | JBoolean bool
  | JNumber int
  | JString string
  | JFunction jsval

fun is_JString :: "jsval \<Rightarrow> bool" where
  "is_JString (JString s) = True"
| "is_JString v = False"

fun string_of :: "jsval \<Rightarrow> string" where
  "string_of (JString s) = s"
| "string_of v = []"

subsection \<open>Strings\<close>

definition toUpperCase_char :: "char \<Rightarrow> char" where
  "toUpperCase_char c =
     (let n = (of_char c :: nat) in if 97 \<le> n \<and> n \<le> 122 then char_of (n - 32) else c)"

definition toLowerCase_char :: "char \<Rightarrow> char" where
  "toLowerCase_char c =
     (let n = (of_char c :: nat) in if 65 \<le> n \<and> n \<le> 90 then char_of (n + 32) else c)"

definition toUpperCase :: "string \<Rightarrow> string" where
  "toUpperCase s = map toUpperCase_char s"

definition toLowerCase :: "string \<Rightarrow> string" where
  "toLowerCase s = map toLowerCase_char s"

text \<open>\<open>s.split('\n')\<close> and \<open>lines.join('\n')\<close>.\<close>

fun split_nl :: "string \<Rightarrow> string list" where
  "split_nl [] = [[]]"
| "split_nl (c # cs) =
     (if c = CHR 0x0A then [] # split_nl cs
      else (case split_nl cs of [] \<Rightarrow> [[c]] | l # ls \<Rightarrow> (c # l) # ls))"

fun join_nl :: "string list \<Rightarrow> string" where
  "join_nl [] = []"
| "join_nl [l] = l"
| "join_nl (l # l' # ls) = l @ CHR 0x0A # join_nl (l' # ls)"

text \<open>\<open>values.join(', ')\<close>.\<close>

fun join_comma :: "string list \<Rightarrow> string" where
  "join_comma [] = []"
| "join_comma [l] = l"
| "join_comma (l # l' # ls) = l @ '', '' @ join_comma (l' # ls)"

text \<open>\<open>array.indexOf(x)\<close> and \<open>array.findIndex(p)\<close>: the first position, or -1.\<close>

fun findIndex :: "('a \<Rightarrow> bool) \<Rightarrow> 'a list \<Rightarrow> int" where
  "findIndex p [] = -1"
| "findIndex p (x # xs) =
     (if p x then 0 else (let i = findIndex p xs in if i = -1 then -1 else i + 1))"

definition indexOf :: "'a list \<Rightarrow> 'a \<Rightarrow> int" where
  "indexOf xs x = findIndex (\<lambda>y. y = x) xs"

subsection \<open>log\_level.ts\<close>

datatype LogLevel =
    LogLevel_None
  | LogLevel_Error
  | LogLevel_Warning
  | LogLevel_Info
  | LogLevel_Debug
  | LogLevel_Trace

text \<open>The string each member of the enum is.\<close>

fun LogLevel_value :: "LogLevel \<Rightarrow> string" where
  "LogLevel_value LogLevel_None = ''none''"
| "LogLevel_value LogLevel_Error = ''error''"
| "LogLevel_value LogLevel_Warning = ''warning''"
| "LogLevel_value LogLevel_Info = ''info''"
| "LogLevel_value LogLevel_Debug = ''debug''"
| "LogLevel_value LogLevel_Trace = ''trace''"

text \<open>\<open>Object.values(LogLevel)\<close>: the members in the order of their declaration.\<close>

definition LogLevel_values :: "string list" where
  "LogLevel_values =
     map LogLevel_value
       [LogLevel_None, LogLevel_Error, LogLevel_Warning, LogLevel_Info, LogLevel_Debug,
        LogLevel_Trace]"

text \<open>
  The rank of a level: its position in the sequence None, Error, Warning, Info, Debug,
  Trace of the specification.
\<close>

fun rank :: "LogLevel \<Rightarrow> nat" where
  "rank LogLevel_None = 0"
| "rank LogLevel_Error = 1"
| "rank LogLevel_Warning = 2"
| "rank LogLevel_Info = 3"
| "rank LogLevel_Debug = 4"
| "rank LogLevel_Trace = 5"

subsection \<open>What the class takes from outside\<close>

text \<open>
  The enum \<open>LogColor\<close> (log_color.ts) and the message texts of logger_constants.ts
  are not among the sources at hand: the members the class uses are named here, and the
  strings they stand for are given by the environment.
\<close>

datatype LogColor =
    Reset
  | BrightBlack
  | BrightRed
  | BrightYellow
  | BrightBlue
  | BrightMagenta
  | BrightWhite

datatype LoggerConstant =
    invalidLogMessage
  | invalidLoggerName
  | invalidLogMessageType
  | invalidConstructorName
  | invalidSetterStringValue
  | setterValueCannotBeEmpty
  | invalidSetterBooleanValue
  | invalidSetterLogLevelType
  | invalidConstructorLogLevel
  | invalidConstructorNameType
  | invalidConstructorNameEmpty
  | invalidConstructorLogToConsole
  | invalidConstructorCutLogPrefix
  | invalidConstructorLogLevelType
  | invalidConstructorLogWithColor
  | invalidConstructorCutLogWithColor
  | invalidConstructorLogToFileSystem
  | setterValueCannotBeUndefinedOrNull
  | invalidConstructorLogToConsoleType
  | invalidConstructorCutLogPrefixType
  | invalidConstructorLogToFileSystemType

text \<open>
  The environment of the process: the static facts the class reads once, the
  configuration provider, the clock, and how the file system answers.
  \<^item> \<open>util_format_other\<close> is \<open>util.format\<close> outside the fragment defined below;
  \<^item> \<open>stackFrames\<close> are the lines that V8 puts after the first line of the \<open>stack\<close>
    of an error, for each place where the class creates one: they differ from place to
    place, since the callers do;
  \<^item> \<open>mkdirSyncThrows\<close> is what \<open>fs.mkdirSync\<close> of the base directory throws, if
    anything; \<open>createWriteStreamThrows\<close> is what \<open>fs.createWriteStream\<close> throws for a
    path that is a string, if anything; \<open>streamWriteThrows\<close> is what \<open>write\<close> throws
    on a stream opened on that path, if anything;
  \<^item> \<open>isTTY\<close> of a standard stream is \<open>true\<close>, \<open>false\<close> or \<open>undefined\<close> (\<open>None\<close>).
  Clock readings are inputs: the model does not advance them.
\<close>

text \<open>
  The places where an error is created for its \<open>stack\<close>: in \<open>_constructLoggerMessage\<close>,
  called by \<open>_logConsole\<close> or by \<open>_logLocally\<close>, and in
  \<open>_constructColoredLoggerMessage\<close>, which \<open>_logConsole\<close> alone calls.
\<close>

datatype caller = By_logConsole | By_logLocally

datatype stackSite = In_constructLoggerMessage caller | In_constructColoredLoggerMessage

record Env =
  constText :: "LoggerConstant \<Rightarrow> string"
  colorCode :: "LogColor \<Rightarrow> string"
  util_format_other :: "string \<Rightarrow> jsval list \<Rightarrow> string"
  path_join :: "string \<Rightarrow> string \<Rightarrow> string"
  p_localIp :: string
  p_hostname :: string
  p_processId :: string
  p_platform :: string
  p_architecture :: string
  p_nodeVersion :: string
  process_version :: string
  p_logFileBaseDirectory :: string
  dateNowIso :: string
  uptimeFixed7 :: string
  stackFrames :: "stackSite \<Rightarrow> string list"
  mkdirSyncThrows :: "exn option"
  createWriteStreamThrows :: "string \<Rightarrow> exn option"
  streamWriteThrows :: "string \<Rightarrow> exn option"
  stdout_isTTY :: "bool option"
  stderr_isTTY :: "bool option"
  defaultLoggerName :: string
  defaultLogLevel :: string
  defaultLoggerLogToFileSystem :: bool
  defaultLoggerLogToConsole :: bool
  defaultLoggerCutLogPrefix :: bool
  defaultLoggerLogWithColor :: bool

definition p_architectureFmt :: "Env \<Rightarrow> string" where
  "p_architectureFmt env = p_platform env @ ''-'' @ p_architecture env"

text \<open>
  \<open>util.format\<close>. On a format whose only directives are \<open>%s\<close> and on arguments that
  are all strings, it puts the arguments in the place of the directives, in order; a
  directive with no argument left stays as it is, and the arguments left over follow,
  each after a space. Everywhere else it is the environment's.
\<close>

fun only_s :: "string \<Rightarrow> bool" where
  "only_s [] = True"
| "only_s [c] = (c \<noteq> CHR ''%'')"
| "only_s (c # d # f) =
     (if c = CHR ''%'' then d = CHR ''s'' \<and> only_s f else only_s (d # f))"

fun util_format_s :: "string \<Rightarrow> string list \<Rightarrow> string" where
  "util_format_s [] as = concat (map (\<lambda>a. CHR '' '' # a) as)"
| "util_format_s [c] as = c # util_format_s [] as"
| "util_format_s (c # d # f) as =
     (if c = CHR ''%'' \<and> d = CHR ''s'' then
        (case as of
           [] \<Rightarrow> c # d # util_format_s f []
         | a # as' \<Rightarrow> a @ util_format_s f as')
      else c # util_format_s (d # f) as)"

definition util_format :: "Env \<Rightarrow> string \<Rightarrow> jsval list \<Rightarrow> string" where
  "util_format env f args =
     (if only_s f \<and> list_all is_JString args then util_format_s f (map string_of args)
      else util_format_other env f args)"

text \<open>\<open>fs.WriteStream\<close>: what was written, and whether it was ended and destroyed.\<close>

record WriteStream =
  ws_path :: string
  ws_written :: "string list"
  ws_ended :: bool
  ws_destroyed :: bool
  ws_writeThrows :: "exn option"

text \<open>
  The world outside the instances: what was written to the two standard streams, the
  streams created so far (a stream is named by its position), and whether the base
  directory of the log files exists.
\<close>

record IO =
  stdout :: "string list"
  stderr :: "string list"
  streams :: "WriteStream list"
  baseDirExists :: bool

text \<open>
  \<open>stream.end()\<close> and \<open>stream.destroy()\<close> report failures through events and throw
  nothing. \<open>stream.write(chunk)\<close> throws what the stream is set to throw; a stream that
  was ended or destroyed takes no chunk.
\<close>

definition stream_end :: "nat \<Rightarrow> IO \<Rightarrow> IO" where
  "stream_end sid io =
     (if sid < length (streams io)
      then io\<lparr>streams := (streams io)[sid := (streams io ! sid)\<lparr>ws_ended := True\<rparr>]\<rparr>
      else io)"

definition stream_destroy :: "nat \<Rightarrow> IO \<Rightarrow> IO" where
  "stream_destroy sid io =
     (if sid < length (streams io)
      then io\<lparr>streams := (streams io)[sid := (streams io ! sid)\<lparr>ws_destroyed := True\<rparr>]\<rparr>
      else io)"

definition stream_write :: "nat \<Rightarrow> string \<Rightarrow> IO \<Rightarrow> exn + IO" where
  "stream_write sid chunk io =
     (if sid < length (streams io) then
        (let s = streams io ! sid in
         case ws_writeThrows s of
           Some ex \<Rightarrow> Inl ex
         | None \<Rightarrow>
             if ws_ended s \<or> ws_destroyed s then Inr io
             else Inr (io\<lparr>streams := (streams io)[sid := s\<lparr>ws_written := ws_written s @ [chunk]\<rparr>]\<rparr>))
      else Inr io)"

subsection \<open>The instance\<close>

record Logger =
  p_cutLogPrefix :: bool
  p_name :: string
  p_logLevel :: string
  p_logToConsole :: bool
  p_logToFileSystem :: bool
  p_logWithColor :: bool
  p_lockedFileWriteStream :: "nat option"
  p_fileName :: "string option"
  p_fullyQualifiedLogFileName :: "string option"
  p_cachedNonColorPrefix :: "string option"
  p_cachedColorPrefix :: "string option"

subsection \<open>Static helpers\<close>

definition fileSafe_char :: "char \<Rightarrow> bool" where
  "fileSafe_char c =
     (let n = (of_char c :: nat) in
      (97 \<le> n \<and> n \<le> 122) \<or> (65 \<le> n \<and> n \<le> 90) \<or> (48 \<le> n \<and> n \<le> 57)
      \<or> c = CHR ''_'' \<or> c = CHR ''-'')"

definition p_getFileSafeDateNowIsoString :: "Env \<Rightarrow> string" where
  "p_getFileSafeDateNowIsoString env =
     filter (\<lambda>c. c \<noteq> CHR ''-'') (filter fileSafe_char (dateNowIso env))"

definition p_getDateNowIsoString :: "Env \<Rightarrow> string" where
  "p_getDateNowIsoString env = dateNowIso env"

definition p_getUptime :: "Env \<Rightarrow> string" where
  "p_getUptime env = uptimeFixed7 env"

definition p_getColorSection :: "Env \<Rightarrow> LogColor \<Rightarrow> string \<Rightarrow> string" where
  "p_getColorSection env color content =
     util_format env ''[%s%s%s]''
       [JString (colorCode env color), JString content, JString (colorCode env Reset)]"

definition p_getDefaultColorSection :: "Env \<Rightarrow> string \<Rightarrow> string" where
  "p_getDefaultColorSection env content = p_getColorSection env BrightBlack content"

text \<open>
  The \<open>stack\<close> of \<open>new Error(message)\<close> created at a place: the first line is
  \<open>Error: message\<close>, or \<open>Error\<close> alone when the message is empty, and the frames of
  the place follow, one a line.
\<close>

definition Error_stack :: "Env \<Rightarrow> stackSite \<Rightarrow> string \<Rightarrow> string" where
  "Error_stack env site message =
     (if message = [] then ''Error'' else ''Error: '' @ message)
     @ concat (map (\<lambda>f. CHR 0x0A # f) (stackFrames env site))"

text \<open>\<open>line.replace(/^Error: /, '')\<close>.\<close>

definition replace_Error_marker :: "string \<Rightarrow> string" where
  "replace_Error_marker l = (if take 7 l = ''Error: '' then drop 7 l else l)"

definition p_formatStackTrace :: "string \<Rightarrow> string" where
  "p_formatStackTrace stackTrace =
     (let stackTraceLines = split_nl stackTrace;
          stackTraceLines = stackTraceLines[0 := replace_Error_marker (stackTraceLines ! 0)]
      in join_nl stackTraceLines)"

subsection \<open>Prefixes\<close>

definition p_getConstructedShortNonColorLogPrefix :: "Env \<Rightarrow> Logger \<Rightarrow> string" where
  "p_getConstructedShortNonColorLogPrefix env this =
     util_format env ''[%s][%s][%s]''
       [JString (p_localIp env), JString (p_hostname env), JString (p_name this)]"

definition p_getConstructedLongNonColorLogPrefix :: "Env \<Rightarrow> Logger \<Rightarrow> string" where
  "p_getConstructedLongNonColorLogPrefix env this =
     util_format env ''[%s][%s][%s][%s][%s][%s]''
       [JString (p_processId env), JString (p_architectureFmt env),
        JString (p_nodeVersion env), JString (p_localIp env), JString (p_hostname env),
        JString (p_name this)]"

text \<open>\<open>a ??= b\<close> assigns only where \<open>a\<close> is \<open>undefined\<close> or \<open>null\<close>, and yields \<open>a\<close>.\<close>

definition p_getNonColorLogPrefix :: "Env \<Rightarrow> Logger \<Rightarrow> string \<times> Logger" where
  "p_getNonColorLogPrefix env this =
     (if p_cutLogPrefix this then
        (case p_cachedNonColorPrefix this of
           Some c \<Rightarrow> (c, this)
         | None \<Rightarrow>
             (let c = p_getConstructedShortNonColorLogPrefix env this
              in (c, this\<lparr>p_cachedNonColorPrefix := Some c\<rparr>)))
      else
        (case p_cachedNonColorPrefix this of
           Some c \<Rightarrow> (c, this)
         | None \<Rightarrow>
             (let c = p_getConstructedLongNonColorLogPrefix env this
              in (c, this\<lparr>p_cachedNonColorPrefix := Some c\<rparr>))))"

definition p_getConstructedShortLogPrefix :: "Env \<Rightarrow> Logger \<Rightarrow> string" where
  "p_getConstructedShortLogPrefix env this =
     util_format env ''%s%s%s''
       [JString (p_getDefaultColorSection env (p_localIp env)),
        JString (p_getDefaultColorSection env (p_hostname env)),
        JString (p_getDefaultColorSection env (p_name this))]"

definition p_getConstructedLongColorLogPrefix :: "Env \<Rightarrow> Logger \<Rightarrow> string" where
  "p_getConstructedLongColorLogPrefix env this =
     util_format env ''%s%s%s%s%s%s''
       [JString (p_getDefaultColorSection env (p_processId env)),
        JString (p_getDefaultColorSection env (p_architectureFmt env)),
        JString (p_getDefaultColorSection env (p_nodeVersion env)),
        JString (p_getDefaultColorSection env (p_localIp env)),
        JString (p_getDefaultColorSection env (p_hostname env)),
        JString (p_getDefaultColorSection env (p_name this))]"

definition p_getColorPrefix :: "Env \<Rightarrow> Logger \<Rightarrow> string \<times> Logger" where
  "p_getColorPrefix env this =
     (if p_cutLogPrefix this then
        (case p_cachedColorPrefix this of
           Some c \<Rightarrow> (c, this)
         | None \<Rightarrow>
             (let c = p_getConstructedShortLogPrefix env this
              in (c, this\<lparr>p_cachedColorPrefix := Some c\<rparr>)))
      else
        (case p_cachedColorPrefix this of
           Some c \<Rightarrow> (c, this)
         | None \<Rightarrow>
             (let c = p_getConstructedLongColorLogPrefix env this
              in (c, this\<lparr>p_cachedColorPrefix := Some c\<rparr>))))"

subsection \<open>The line of a message\<close>

text \<open>
  \<open>_constructLoggerMessage\<close> takes its caller as one more argument: the \<open>stack\<close> of
  the error it creates depends on it.
\<close>

definition p_constructLoggerMessage ::
  "Env \<Rightarrow> caller \<Rightarrow> Logger \<Rightarrow> LogLevel \<Rightarrow> string \<Rightarrow> jsval list \<Rightarrow> string \<times> Logger" where
  "p_constructLoggerMessage env calledBy this logLevel format args =
     (let formattedMessage = (if length args = 0 then format else util_format env format args);
          formattedMessage =
            (if logLevel = LogLevel_Trace
             then util_format env ''%s''
                    [JString (p_formatStackTrace
                       (Error_stack env (In_constructLoggerMessage calledBy) formattedMessage))]
             else formattedMessage)
      in if p_cutLogPrefix this then
           (let (prefix, this) = p_getNonColorLogPrefix env this
            in (util_format env (''[%s]%s[%s] %s'' @ [CHR 0x0A])
                  [JString (p_getDateNowIsoString env), JString prefix,
                   JString (toUpperCase (LogLevel_value logLevel)), JString formattedMessage],
                this))
         else
           (let (prefix, this) = p_getNonColorLogPrefix env this
            in (util_format env (''[%s][%s]%s[%s] %s'' @ [CHR 0x0A])
                  [JString (p_getDateNowIsoString env), JString (p_getUptime env),
                   JString prefix, JString (toUpperCase (LogLevel_value logLevel)),
                   JString formattedMessage],
                this)))"

definition p_constructColoredLoggerMessage ::
  "Env \<Rightarrow> Logger \<Rightarrow> LogLevel \<Rightarrow> LogColor \<Rightarrow> string \<Rightarrow> jsval list \<Rightarrow> string \<times> Logger" where
  "p_constructColoredLoggerMessage env this logLevel color format args =
     (let formattedMessage = (if length args = 0 then format else util_format env format args);
          formattedMessage =
            (if logLevel = LogLevel_Trace
             then util_format env ''%s''
                    [JString (p_formatStackTrace
                       (Error_stack env In_constructColoredLoggerMessage formattedMessage))]
             else formattedMessage)
      in if p_cutLogPrefix this then
           (let (prefix, this) = p_getColorPrefix env this
            in (util_format env (''%s%s%s %s%s%s'' @ [CHR 0x0A])
                  [JString (p_getDefaultColorSection env (p_getDateNowIsoString env)),
                   JString prefix,
                   JString (p_getColorSection env color (toUpperCase (LogLevel_value logLevel))),
                   JString (colorCode env color), JString formattedMessage,
                   JString (colorCode env Reset)],
                this))
         else
           (let (prefix, this) = p_getColorPrefix env this
            in (util_format env (''%s%s%s%s %s%s%s'' @ [CHR 0x0A])
                  [JString (p_getDefaultColorSection env (p_getDateNowIsoString env)),
                   JString (p_getDefaultColorSection env (p_getUptime env)),
                   JString prefix,
                   JString (p_getColorSection env color (toUpperCase (LogLevel_value logLevel))),
                   JString (colorCode env color), JString formattedMessage,
                   JString (colorCode env Reset)],
                this)))"

subsection \<open>Console, level gate, file stream\<close>

definition p_logConsole ::
  "Env \<Rightarrow> Logger \<Rightarrow> LogLevel \<Rightarrow> LogColor \<Rightarrow> string \<Rightarrow> jsval list \<Rightarrow> IO \<Rightarrow> Logger \<times> IO" where
  "p_logConsole env this logLevel color format args io =
     (if \<not> p_logToConsole this then (this, io)
      else
        (let (message, this) =
               (if p_logWithColor this
                then p_constructColoredLoggerMessage env this logLevel color format args
                else p_constructLoggerMessage env By_logConsole this logLevel format args)
         in if logLevel = LogLevel_Error then (this, io\<lparr>stderr := stderr io @ [message]\<rparr>)
            else (this, io\<lparr>stdout := stdout io @ [message]\<rparr>)))"

definition p_checkLogLevel :: "Logger \<Rightarrow> LogLevel \<Rightarrow> bool" where
  "p_checkLogLevel this logLevelToCheck =
     (let values = LogLevel_values;
          actualLogLevel = indexOf values (p_logLevel this);
          logLevelToCheckIndex = indexOf values (LogLevel_value logLevelToCheck)
      in actualLogLevel \<ge> logLevelToCheckIndex)"

text \<open>
  \<open>fs.createWriteStream(path, { flags: 'a' })\<close> gives a new stream, or throws. Node
  checks the path first: for \<open>undefined\<close> it throws the TypeError of an invalid
  argument. The handler the source registers for the \<open>error\<close> event is
  \<open>p_onFileStreamError\<close> below.
\<close>

definition invalid_path_error :: exn where
  "invalid_path_error =
     Thrown TypeError
       (''The '' @ [CHR 0x22] @ ''path'' @ [CHR 0x22]
        @ '' argument must be of type string or an instance of Buffer or URL. Received undefined'')
       (Some ''ERR_INVALID_ARG_TYPE'')"

definition p_createFileStream :: "Env \<Rightarrow> Logger \<Rightarrow> IO \<Rightarrow> exn option \<times> Logger \<times> IO" where
  "p_createFileStream env this io =
     (case p_fullyQualifiedLogFileName this of
        None \<Rightarrow> (Some invalid_path_error, this, io)
      | Some path \<Rightarrow>
          (case createWriteStreamThrows env path of
             Some ex \<Rightarrow> (Some ex, this, io)
           | None \<Rightarrow>
               (None,
                this\<lparr>p_lockedFileWriteStream := Some (length (streams io))\<rparr>,
                io\<lparr>streams := streams io @
                      [\<lparr>ws_path = path, ws_written = [], ws_ended = False,
                        ws_destroyed = False,
                        ws_writeThrows = streamWriteThrows env path\<rparr>]\<rparr>)))"

definition p_closeFileStream :: "Logger \<Rightarrow> IO \<Rightarrow> Logger \<times> IO" where
  "p_closeFileStream this io =
     (let io = (case p_lockedFileWriteStream this of
                  None \<Rightarrow> io
                | Some sid \<Rightarrow> stream_destroy sid (stream_end sid io))
      in (this\<lparr>p_lockedFileWriteStream := None,
               p_fullyQualifiedLogFileName := None,
               p_fileName := None\<rparr>, io))"

text \<open>
  \<open>ex instanceof Error ? ex.message : ex?.toString() ?? fallback\<close>, for the values
  that are thrown here.
\<close>

fun message_of :: "exn \<Rightarrow> string \<Rightarrow> string" where
  "message_of (Thrown t m c) fallback = m"
| "message_of (ThrownString s) fallback = s"
| "message_of ThrownUndefined fallback = fallback"
| "message_of ThrownNull fallback = fallback"

subsection \<open>Writing a message\<close>

text \<open>
  \<open>warning\<close>, \<open>_log\<close>, \<open>_logLocally\<close> and \<open>_createFileName\<close> call one another: a
  failure of the file sink is reported by \<open>this.warning\<close>. The promise that call returns
  is not awaited, so what it rejects with is dropped. The check
  \<open>this instanceof Logger\<close> of the log methods has no counterpart: \<open>this\<close> is a
  \<open>Logger\<close> by its type.
\<close>

function Logger_warning ::
    "Env \<Rightarrow> Logger \<Rightarrow> jsval \<Rightarrow> jsval list \<Rightarrow> IO \<Rightarrow> exn option \<times> Logger \<times> IO"
  and p_log ::
    "Env \<Rightarrow> Logger \<Rightarrow> LogLevel \<Rightarrow> LogColor \<Rightarrow> string \<Rightarrow> jsval list \<Rightarrow> IO
       \<Rightarrow> exn option \<times> Logger \<times> IO"
  and p_logLocally ::
    "Env \<Rightarrow> Logger \<Rightarrow> LogLevel \<Rightarrow> string \<Rightarrow> jsval list \<Rightarrow> IO \<Rightarrow> exn option \<times> Logger \<times> IO"
  and p_createFileName :: "Env \<Rightarrow> Logger \<Rightarrow> IO \<Rightarrow> Logger \<times> IO"
where
  "Logger_warning env this message args io =
     (if message = JUndefined \<or> message = JNull
      then (Some (Thrown ReferenceError (constText env invalidLogMessage) None), this, io)
      else
        (let message = (case message of JFunction v \<Rightarrow> v | _ \<Rightarrow> message)
         in case message of
              JString s \<Rightarrow>
                if length s = 0
                then (Some (Thrown RangeError (constText env invalidLogMessage) None), this, io)
                else if \<not> p_checkLogLevel this LogLevel_Warning then (None, this, io)
                else p_log env this LogLevel_Warning BrightYellow s args io
            | _ \<Rightarrow> (Some (Thrown TypeError (constText env invalidLogMessageType) None), this, io)))"
| "p_log env this logLevel color format args io =
     (let (this1, io1) = p_logConsole env this logLevel color format args io
      in p_logLocally env this1 logLevel format args io1)"
| "p_logLocally env this logLevel format args io =
     (if \<not> p_logToFileSystem this then (None, this, io)
      else
        (let (r, this1, io1) =
               (if p_lockedFileWriteStream this = None
                then (let (t, i) = p_createFileName env this io in p_createFileStream env t i)
                else (None, this, io))
         in case r of
              Some ex \<Rightarrow> (Some ex, this1, io1)
            | None \<Rightarrow>
                (case p_lockedFileWriteStream this1 of
                   None \<Rightarrow> (None, this1, io1)
                 | Some sid \<Rightarrow>
                     (let (line, this2) =
                            p_constructLoggerMessage env By_logLocally this1 logLevel format args
                      in case stream_write sid line io1 of
                           Inr io2 \<Rightarrow> (None, this2, io2)
                         | Inl ex \<Rightarrow>
                             (let this3 = this2\<lparr>p_logToFileSystem := False\<rparr>;
                                  (this4, io4) = p_closeFileStream this3 io1;
                                  (r5, this5, io5) =
                                    Logger_warning env this4
                                      (JString ''Unable to write to file stream due to \"%s\". Disabling file stream.'')
                                      [JString (message_of ex ''<unkown error>'')] io4
                              in (None, this5, io5))))))"
| "p_createFileName env this io =
     (let fileName =
            (case p_fileName this of
               Some f \<Rightarrow> f
             | None \<Rightarrow>
                 util_format env ''log_%s_%s_%s_%s.log''
                   [JString (p_name this), JString (process_version env),
                    JString (p_getFileSafeDateNowIsoString env),
                    JString (toUpperCase (p_processId env))]);
          this = this\<lparr>p_fileName := Some fileName\<rparr>;
          fullyQualifiedLogFileName =
            (case p_fullyQualifiedLogFileName this of
               Some q \<Rightarrow> q
             | None \<Rightarrow> path_join env (p_logFileBaseDirectory env) fileName);
          this = this\<lparr>p_fullyQualifiedLogFileName := Some fullyQualifiedLogFileName\<rparr>
      in if baseDirExists io then (this, io)
         else
           (case mkdirSyncThrows env of
              None \<Rightarrow> (this, io\<lparr>baseDirExists := True\<rparr>)
            | Some error \<Rightarrow>
                (let this = this\<lparr>p_logToFileSystem := False\<rparr>;
                     (this, io) = p_closeFileStream this io
                 in case error of
                      Thrown t m code \<Rightarrow>
                        if code = Some ''EPERM'' \<or> code = Some ''EACCES'' then
                          (let (r, this, io) =
                                 Logger_warning env this
                                   (JString ''Unable to create log file directory. Please ensure that the current user has permission to create directories.'')
                                   [] io
                           in (this, io))
                        else
                          (let (r, this, io) =
                                 Logger_warning env this
                                   (JString ''Unable to create log file directory. An unknown error has occurred '%s'.'')
                                   [JString m] io
                           in (this, io))
                    | _ \<Rightarrow>
                        (let (r, this, io) =
                               Logger_warning env this
                                 (JString ''Unable to create log file directory. An unknown error has occurred '%s'.'')
                                 [JString (message_of error ''<unknown error>'')] io
                         in (this, io)))))"
  by pat_completeness auto
termination
  apply (relation "measure (\<lambda>x. case x of
      Inl (Inl (env, this, message, args, io)) \<Rightarrow> (if p_logToFileSystem this then 8 else 0) + 3
    | Inl (Inr (env, this, logLevel, color, format, args, io)) \<Rightarrow>
        (if p_logToFileSystem this then 8 else 0) + 2
    | Inr (Inl (env, this, logLevel, format, args, io)) \<Rightarrow>
        (if p_logToFileSystem this then 8 else 0) + 1
    | Inr (Inr (env, this, io)) \<Rightarrow> 4)")
  apply (auto simp: p_closeFileStream_def p_logConsole_def p_constructLoggerMessage_def
      p_constructColoredLoggerMessage_def p_getNonColorLogPrefix_def p_getColorPrefix_def Let_def
      split: if_splits prod.splits option.splits)
  done

declare Logger_warning.simps [simp del]
declare p_log.simps [simp del]
declare p_logLocally.simps [simp del]
declare p_createFileName.simps [simp del]

definition Logger_log ::
  "Env \<Rightarrow> Logger \<Rightarrow> jsval \<Rightarrow> jsval list \<Rightarrow> IO \<Rightarrow> exn option \<times> Logger \<times> IO" where
  "Logger_log env this message args io =
     (if message = JUndefined \<or> message = JNull
      then (Some (Thrown ReferenceError (constText env invalidLogMessage) None), this, io)
      else
        (let message = (case message of JFunction v \<Rightarrow> v | _ \<Rightarrow> message)
         in case message of
              JString s \<Rightarrow>
                if length s = 0
                then (Some (Thrown RangeError (constText env invalidLogMessage) None), this, io)
                else if \<not> p_checkLogLevel this LogLevel_Info then (None, this, io)
                else p_log env this LogLevel_Info BrightWhite s args io
            | _ \<Rightarrow> (Some (Thrown TypeError (constText env invalidLogMessageType) None), this, io)))"

definition Logger_trace ::
  "Env \<Rightarrow> Logger \<Rightarrow> jsval \<Rightarrow> jsval list \<Rightarrow> IO \<Rightarrow> exn option \<times> Logger \<times> IO" where
  "Logger_trace env this message args io =
     (if message = JUndefined \<or> message = JNull
      then (Some (Thrown ReferenceError (constText env invalidLogMessage) None), this, io)
      else
        (let message = (case message of JFunction v \<Rightarrow> v | _ \<Rightarrow> message)
         in case message of
              JString s \<Rightarrow>
                if length s = 0
                then (Some (Thrown RangeError (constText env invalidLogMessage) None), this, io)
                else if \<not> p_checkLogLevel this LogLevel_Trace then (None, this, io)
                else p_log env this LogLevel_Trace BrightMagenta s args io
            | _ \<Rightarrow> (Some (Thrown TypeError (constText env invalidLogMessageType) None), this, io)))"

definition Logger_debug ::
  "Env \<Rightarrow> Logger \<Rightarrow> jsval \<Rightarrow> jsval list \<Rightarrow> IO \<Rightarrow> exn option \<times> Logger \<times> IO" where
  "Logger_debug env this message args io =
     (if message = JUndefined \<or> message = JNull
      then (Some (Thrown ReferenceError (constText env invalidLogMessage) None), this, io)
      else
        (let message = (case message of JFunction v \<Rightarrow> v | _ \<Rightarrow> message)
         in case message of
              JString s \<Rightarrow>
                if length s = 0
                then (Some (Thrown RangeError (constText env invalidLogMessage) None), this, io)
                else if \<not> p_checkLogLevel this LogLevel_Debug then (None, this, io)
                else p_log env this LogLevel_Debug BrightMagenta s args io
            | _ \<Rightarrow> (Some (Thrown TypeError (constText env invalidLogMessageType) None), this, io)))"

definition Logger_information ::
  "Env \<Rightarrow> Logger \<Rightarrow> jsval \<Rightarrow> jsval list \<Rightarrow> IO \<Rightarrow> exn option \<times> Logger \<times> IO" where
  "Logger_information env this message args io =
     (if message = JUndefined \<or> message = JNull
      then (Some (Thrown ReferenceError (constText env invalidLogMessage) None), this, io)
      else
        (let message = (case message of JFunction v \<Rightarrow> v | _ \<Rightarrow> message)
         in case message of
              JString s \<Rightarrow>
                if length s = 0
                then (Some (Thrown RangeError (constText env invalidLogMessage) None), this, io)
                else if \<not> p_checkLogLevel this LogLevel_Info then (None, this, io)
                else p_log env this LogLevel_Info BrightBlue s args io
            | _ \<Rightarrow> (Some (Thrown TypeError (constText env invalidLogMessageType) None), this, io)))"

definition Logger_error ::
  "Env \<Rightarrow> Logger \<Rightarrow> jsval \<Rightarrow> jsval list \<Rightarrow> IO \<Rightarrow> exn option \<times> Logger \<times> IO" where
  "Logger_error env this message args io =
     (if message = JUndefined \<or> message = JNull
      then (Some (Thrown ReferenceError (constText env invalidLogMessage) None), this, io)
      else
        (let message = (case message of JFunction v \<Rightarrow> v | _ \<Rightarrow> message)
         in case message of
              JString s \<Rightarrow>
                if length s = 0
                then (Some (Thrown RangeError (constText env invalidLogMessage) None), this, io)
                else if \<not> p_checkLogLevel this LogLevel_Error then (None, this, io)
                else p_log env this LogLevel_Error BrightRed s args io
            | _ \<Rightarrow> (Some (Thrown TypeError (constText env invalidLogMessageType) None), this, io)))"

text \<open>The six log methods, named, with the level and the color each one logs at.\<close>

datatype logMethod = Log | Warning | Trace | Debug | Information | Error_method

fun emit ::
  "Env \<Rightarrow> logMethod \<Rightarrow> Logger \<Rightarrow> jsval \<Rightarrow> jsval list \<Rightarrow> IO \<Rightarrow> exn option \<times> Logger \<times> IO" where
  "emit env Log = Logger_log env"
| "emit env Warning = Logger_warning env"
| "emit env Trace = Logger_trace env"
| "emit env Debug = Logger_debug env"
| "emit env Information = Logger_information env"
| "emit env Error_method = Logger_error env"

fun level_of :: "logMethod \<Rightarrow> LogLevel" where
  "level_of Log = LogLevel_Info"
| "level_of Warning = LogLevel_Warning"
| "level_of Trace = LogLevel_Trace"
| "level_of Debug = LogLevel_Debug"
| "level_of Information = LogLevel_Info"
| "level_of Error_method = LogLevel_Error"

fun color_of :: "logMethod \<Rightarrow> LogColor" where
  "color_of Log = BrightWhite"
| "color_of Warning = BrightYellow"
| "color_of Trace = BrightMagenta"
| "color_of Debug = BrightMagenta"
| "color_of Information = BrightBlue"
| "color_of Error_method = BrightRed"

text \<open>
  The handler of the \<open>error\<close> event of the stream. \<open>ThrownUndefined\<close> and
  \<open>ThrownNull\<close> are the handler called with no error; a value with no \<open>code\<close> takes
  the default branch of the switch.
\<close>

definition p_onFileStreamError :: "Env \<Rightarrow> Logger \<Rightarrow> exn \<Rightarrow> IO \<Rightarrow> Logger \<times> IO" where
  "p_onFileStreamError env this error io =
     (let this = this\<lparr>p_logToFileSystem := False\<rparr>;
          (this, io) = p_closeFileStream this io;
          text =
            (if error = ThrownUndefined \<or> error = ThrownNull
             then ''File system file write stream error callback invoked, but error not actually provided.''
             else
               (let code = (case error of Thrown t m c \<Rightarrow> c | _ \<Rightarrow> None)
                in if code = Some ''EACCES''
                   then ''File system file write stream error callback invoked. Permission denied.''
                   else if code = Some ''EISDIR''
                   then ''File system file write stream error callback invoked. File is a directory.''
                   else if code = Some ''EMFILE''
                   then ''File system file write stream error callback invoked. Too many open files.''
                   else if code = Some ''ENFILE''
                   then ''File system file write stream error callback invoked. File table overflow.''
                   else if code = Some ''ENOENT''
                   then ''File system file write stream error callback invoked. File not found.''
                   else if code = Some ''ENOSPC''
                   then ''File system file write stream error callback invoked. No space left on device.''
                   else if code = Some ''EPERM''
                   then ''File system file write stream error callback invoked. Operation not permitted.''
                   else if code = Some ''EROFS''
                   then ''File system file write stream error callback invoked. Read-only file system.''
                   else ''File system file write stream error callback invoked. Unknown error.''));
          (r, this, io) = Logger_warning env this (JString text) [] io
      in (this, io))"

subsection \<open>Getters and the setters of one instance\<close>

definition get_name :: "Logger \<Rightarrow> string" where
  "get_name this = p_name this"

definition get_logLevel :: "Logger \<Rightarrow> string" where
  "get_logLevel this = p_logLevel this"

definition get_logToFileSystem :: "Logger \<Rightarrow> bool" where
  "get_logToFileSystem this = p_logToFileSystem this"

definition get_logToConsole :: "Logger \<Rightarrow> bool" where
  "get_logToConsole this = p_logToConsole this"

definition get_cutLogPrefix :: "Logger \<Rightarrow> bool" where
  "get_cutLogPrefix this = p_cutLogPrefix this"

definition get_logWithColor :: "Logger \<Rightarrow> bool" where
  "get_logWithColor this = p_logWithColor this"

definition get_fileName :: "Logger \<Rightarrow> string option" where
  "get_fileName this = p_fileName this"

definition get_fullyQualifiedLogFileName :: "Logger \<Rightarrow> string option" where
  "get_fullyQualifiedLogFileName this = p_fullyQualifiedLogFileName this"

definition invalidLogLevel_text :: "string \<Rightarrow> string" where
  "invalidLogLevel_text l =
     ''Invalid log level: '' @ l @ ''. Valid log levels are: '' @ join_comma LogLevel_values"

definition set_logLevel :: "Env \<Rightarrow> Logger \<Rightarrow> jsval \<Rightarrow> exn option \<times> Logger" where
  "set_logLevel env this v =
     (if v = JUndefined \<or> v = JNull
      then (Some (Thrown ReferenceError (constText env setterValueCannotBeUndefinedOrNull) None), this)
      else
        (case v of
           JString s \<Rightarrow>
             (let l = toLowerCase s
              in if indexOf LogLevel_values l = -1
                 then (Some (Thrown TypeError (invalidLogLevel_text l) None), this)
                 else (None, this\<lparr>p_logLevel := l\<rparr>))
         | _ \<Rightarrow> (Some (Thrown TypeError (constText env invalidSetterLogLevelType) None), this)))"

definition set_logToFileSystem ::
  "Env \<Rightarrow> Logger \<Rightarrow> jsval \<Rightarrow> IO \<Rightarrow> exn option \<times> Logger \<times> IO" where
  "set_logToFileSystem env this v io =
     (if v = JUndefined \<or> v = JNull
      then (Some (Thrown ReferenceError (constText env setterValueCannotBeUndefinedOrNull) None),
            this, io)
      else
        (case v of
           JBoolean b \<Rightarrow>
             if p_logToFileSystem this = b then (None, this, io)
             else
               (let this = this\<lparr>p_logToFileSystem := b\<rparr>
                in if b then
                     (let (this, io) = p_createFileName env this io
                      in p_createFileStream env this io)
                   else
                     (let (this, io) = p_closeFileStream this io in (None, this, io)))
         | _ \<Rightarrow> (Some (Thrown TypeError (constText env invalidSetterBooleanValue) None), this, io)))"

definition set_logToConsole :: "Env \<Rightarrow> Logger \<Rightarrow> jsval \<Rightarrow> exn option \<times> Logger" where
  "set_logToConsole env this v =
     (if v = JUndefined \<or> v = JNull
      then (Some (Thrown ReferenceError (constText env setterValueCannotBeUndefinedOrNull) None), this)
      else
        (case v of
           JBoolean b \<Rightarrow> (None, this\<lparr>p_logToConsole := b\<rparr>)
         | _ \<Rightarrow> (Some (Thrown TypeError (constText env invalidSetterBooleanValue) None), this)))"

definition set_logWithColor :: "Env \<Rightarrow> Logger \<Rightarrow> jsval \<Rightarrow> exn option \<times> Logger" where
  "set_logWithColor env this v =
     (if v = JUndefined \<or> v = JNull
      then (Some (Thrown ReferenceError (constText env setterValueCannotBeUndefinedOrNull) None), this)
      else
        (case v of
           JBoolean b \<Rightarrow> (None, this\<lparr>p_logWithColor := b\<rparr>)
         | _ \<Rightarrow> (Some (Thrown TypeError (constText env invalidSetterBooleanValue) None), this)))"

subsection \<open>The registry\<close>

text \<open>
  The instances are objects: \<open>objs\<close> holds every instance ever constructed, an instance
  is referred to by its position there, and the static array \<open>_loggers\<close> holds
  references.
\<close>

record World =
  objs :: "Logger list"
  p_loggers :: "nat list"
  p_singleton :: "nat option"
  p_noopSingletonLogger :: "nat option"
  world_io :: IO

definition initial_io :: IO where
  "initial_io = \<lparr>stdout = [], stderr = [], streams = [], baseDirExists = False\<rparr>"

definition initial_world :: World where
  "initial_world =
     \<lparr>objs = [], p_loggers = [], p_singleton = None, p_noopSingletonLogger = None,
      world_io = initial_io\<rparr>"

text \<open>
  Modelled from the spec: \<open>nameRegex\<close> of logger_constants.ts, which is not among the
  sources at hand. The specification gives the pattern \<open>[A-Za-z0-9_-]{1,100}\<close> for a
  name.
\<close>

definition nameRegex_test :: "string \<Rightarrow> bool" where
  "nameRegex_test s = (1 \<le> length s \<and> length s \<le> 100 \<and> list_all fileSafe_char s)"

definition alreadyExists_text :: "string \<Rightarrow> string" where
  "alreadyExists_text name =
     ''Logger with name '' @ [CHR 0x27] @ name @ [CHR 0x27] @ '' already exists.''"

text \<open>
  \<open>a && b\<close> on values that are \<open>true\<close>, \<open>false\<close> or \<open>undefined\<close> (\<open>None\<close>): the
  first operand where it is not \<open>true\<close>, the second otherwise.
\<close>

definition js_and :: "bool option \<Rightarrow> bool option \<Rightarrow> bool option" where
  "js_and a b = (if a = Some True then b else a)"

text \<open>
  The constructor. A parameter with a default takes it where the argument is
  \<open>undefined\<close>. The result is the reference to the new instance.
\<close>

definition new_Logger ::
  "Env \<Rightarrow> jsval \<Rightarrow> jsval \<Rightarrow> jsval \<Rightarrow> jsval \<Rightarrow> jsval \<Rightarrow> jsval \<Rightarrow> World \<Rightarrow> (exn + nat) \<times> World" where
  "new_Logger env name logLevel logToFileSystem logToConsole cutLogPrefix logWithColor w =
     (let logLevel = (if logLevel = JUndefined then JString (LogLevel_value LogLevel_Info) else logLevel);
          logToFileSystem = (if logToFileSystem = JUndefined then JBoolean True else logToFileSystem);
          logToConsole = (if logToConsole = JUndefined then JBoolean True else logToConsole);
          cutLogPrefix = (if cutLogPrefix = JUndefined then JBoolean True else cutLogPrefix);
          logWithColor = (if logWithColor = JUndefined then JBoolean True else logWithColor)
      in
      if name = JUndefined \<or> name = JNull
      then (Inl (Thrown ReferenceError (constText env invalidConstructorName) None), w)
      else case name of
        JString n \<Rightarrow>
          if length n = 0
          then (Inl (Thrown RangeError (constText env invalidConstructorNameEmpty) None), w)
          else if \<not> nameRegex_test n
          then (Inl (Thrown SyntaxError (constText env invalidLoggerName) None), w)
          else if findIndex (\<lambda>logger. p_name (objs w ! logger) = n) (p_loggers w) \<noteq> -1
          then (Inl (Thrown ReferenceError (alreadyExists_text n) None), w)
          else if logLevel = JUndefined \<or> logLevel = JNull
          then (Inl (Thrown ReferenceError (constText env invalidConstructorLogLevel) None), w)
          else (case logLevel of
            JString l0 \<Rightarrow>
              (let l = toLowerCase l0
               in if indexOf LogLevel_values l = -1
                  then (Inl (Thrown TypeError (invalidLogLevel_text l) None), w)
                  else if logToFileSystem = JUndefined \<or> logToFileSystem = JNull
                  then (Inl (Thrown ReferenceError (constText env invalidConstructorLogToFileSystem) None), w)
                  else (case logToFileSystem of
                    JBoolean toFileSystem \<Rightarrow>
                      if logToConsole = JUndefined \<or> logToConsole = JNull
                      then (Inl (Thrown ReferenceError (constText env invalidConstructorLogToConsole) None), w)
                      else (case logToConsole of
                        JBoolean toConsole \<Rightarrow>
                          if cutLogPrefix = JUndefined \<or> cutLogPrefix = JNull
                          then (Inl (Thrown ReferenceError (constText env invalidConstructorCutLogPrefix) None), w)
                          else (case cutLogPrefix of
                            JBoolean cutPrefix \<Rightarrow>
                              if logWithColor = JUndefined \<or> logWithColor = JNull
                              then (Inl (Thrown ReferenceError (constText env invalidConstructorLogWithColor) None), w)
                              else (case logWithColor of
                                JBoolean withColor \<Rightarrow>
                                  (let this = length (objs w);
                                       tty = js_and (js_and (Some toConsole) (stdout_isTTY env))
                                               (stderr_isTTY env);
                                       toConsole = (case tty of None \<Rightarrow> True | Some b \<Rightarrow> b)
                                   in (Inr this,
                                       w\<lparr>p_loggers := p_loggers w @ [this],
                                         objs := objs w @
                                           [\<lparr>p_cutLogPrefix = cutPrefix, p_name = n, p_logLevel = l,
                                             p_logToConsole = toConsole,
                                             p_logToFileSystem = toFileSystem,
                                             p_logWithColor = withColor,
                                             p_lockedFileWriteStream = None,
                                             p_fileName = None,
                                             p_fullyQualifiedLogFileName = None,
                                             p_cachedNonColorPrefix = None,
                                             p_cachedColorPrefix = None\<rparr>]\<rparr>))
                              | _ \<Rightarrow> (Inl (Thrown TypeError (constText env invalidConstructorCutLogWithColor) None), w))
                          | _ \<Rightarrow> (Inl (Thrown TypeError (constText env invalidConstructorCutLogPrefixType) None), w))
                      | _ \<Rightarrow> (Inl (Thrown TypeError (constText env invalidConstructorLogToConsoleType) None), w))
                  | _ \<Rightarrow> (Inl (Thrown TypeError (constText env invalidConstructorLogToFileSystemType) None), w)))
          | _ \<Rightarrow> (Inl (Thrown TypeError (constText env invalidConstructorLogLevelType) None), w))
      | _ \<Rightarrow> (Inl (Thrown TypeError (constText env invalidConstructorNameType) None), w))"

definition get_singleton :: "Env \<Rightarrow> World \<Rightarrow> (exn + nat) \<times> World" where
  "get_singleton env w =
     (case p_singleton w of
        Some s \<Rightarrow> (Inr s, w)
      | None \<Rightarrow>
          (case new_Logger env (JString (defaultLoggerName env)) (JString (defaultLogLevel env))
                  (JBoolean (defaultLoggerLogToFileSystem env))
                  (JBoolean (defaultLoggerLogToConsole env))
                  (JBoolean (defaultLoggerCutLogPrefix env))
                  (JBoolean (defaultLoggerLogWithColor env)) w of
             (Inl ex, w) \<Rightarrow> (Inl ex, w)
           | (Inr s, w) \<Rightarrow> (Inr s, w\<lparr>p_singleton := Some s\<rparr>)))"

definition get_noopSingleton :: "Env \<Rightarrow> World \<Rightarrow> (exn + nat) \<times> World" where
  "get_noopSingleton env w =
     (case p_noopSingletonLogger w of
        Some s \<Rightarrow> (Inr s, w)
      | None \<Rightarrow>
          (case new_Logger env (JString (defaultLoggerName env @ ''_noop''))
                  (JString (LogLevel_value LogLevel_None))
                  (JBoolean False) (JBoolean False) (JBoolean False) (JBoolean False) w of
             (Inl ex, w) \<Rightarrow> (Inl ex, w)
           | (Inr s, w) \<Rightarrow> (Inr s, w\<lparr>p_noopSingletonLogger := Some s\<rparr>)))"

text \<open>A method of the instance a reference points to, with the instance written back.\<close>

definition invoke ::
  "nat \<Rightarrow> (Logger \<Rightarrow> IO \<Rightarrow> exn option \<times> Logger \<times> IO) \<Rightarrow> World \<Rightarrow> exn option \<times> World" where
  "invoke this m w =
     (let (r, t, i) = m (objs w ! this) (world_io w)
      in (r, w\<lparr>objs := (objs w)[this := t], world_io := i\<rparr>))"

definition set_name :: "Env \<Rightarrow> nat \<Rightarrow> jsval \<Rightarrow> World \<Rightarrow> exn option \<times> World" where
  "set_name env this v w =
     (if v = JUndefined \<or> v = JNull
      then (Some (Thrown ReferenceError (constText env setterValueCannotBeUndefinedOrNull) None), w)
      else
        (case v of
           JString n \<Rightarrow>
             if length n = 0
             then (Some (Thrown RangeError (constText env setterValueCannotBeEmpty) None), w)
             else if \<not> nameRegex_test n
             then (Some (Thrown SyntaxError (constText env invalidLoggerName) None), w)
             else if findIndex (\<lambda>logger. p_name (objs w ! logger) = n) (p_loggers w) \<noteq> -1
             then (Some (Thrown ReferenceError (alreadyExists_text n) None), w)
             else (None, w\<lparr>objs := (objs w)[this := (objs w ! this)\<lparr>p_name := n\<rparr>]\<rparr>)
         | _ \<Rightarrow> (Some (Thrown TypeError (constText env invalidSetterStringValue) None), w)))"

subsection \<open>Clearing the registry\<close>

text \<open>
  The inner loop of \<open>tryClearAllLoggers\<close>:
  \<open>while ((index = array.findIndex(p)) >= 0) array.splice(index, 1)\<close>.
\<close>

function splice_while :: "('a \<Rightarrow> bool) \<Rightarrow> 'a list \<Rightarrow> 'a list" where
  "splice_while p xs =
     (let index = findIndex p xs
      in if index \<ge> 0 then splice_while p (take (nat index) xs @ drop (nat index + 1) xs)
         else xs)"
  by pat_completeness auto
termination
proof (relation "measure (\<lambda>(p, xs). length xs)", goal_cases)
  case 1
  show ?case by simp
next
  case (2 p xs index)
  have "0 \<le> findIndex p ys \<Longrightarrow> nat (findIndex p ys) < length ys" for ys
    by (induction ys) (auto simp: Let_def split: if_splits)
  from this [of xs] 2 have "nat index < length xs" by simp
  then show ?case by simp
qed

declare splice_while.simps [simp del]

text \<open>
  The loop over the instances to clear: every entry of the registry that carries the
  name of the instance is removed, then the file stream of the instance is closed.
\<close>

fun clearAll_loop :: "nat list \<Rightarrow> World \<Rightarrow> World" where
  "clearAll_loop [] w = w"
| "clearAll_loop (logger # rest) w =
     (let name = p_name (objs w ! logger);
          w = w\<lparr>p_loggers :=
                  splice_while (\<lambda>otherLogger. p_name (objs w ! otherLogger) = name) (p_loggers w)\<rparr>;
          (r, w) = invoke logger (\<lambda>t i. let (t, i) = p_closeFileStream t i in (None, t, i)) w
      in clearAll_loop rest w)"

text \<open>
  \<open>tryClearAllLoggers\<close>. The getter \<open>Logger.singleton\<close> and the call of \<open>log\<close> stand
  before the \<open>try\<close>; what the promise of \<open>log\<close> rejects with is dropped. No step inside
  the \<open>try\<close> throws here, so its \<open>catch\<close> has no counterpart. The file part of the
  \<open>log\<close> call, which the source defers to a later turn of the event loop, is done before
  the loop: it touches the default singleton only, which the loop leaves alone.
\<close>

definition tryClearAllLoggers :: "Env \<Rightarrow> World \<Rightarrow> exn option \<times> World" where
  "tryClearAllLoggers env w =
     (case get_singleton env w of
        (Inl ex, w) \<Rightarrow> (Some ex, w)
      | (Inr s, w) \<Rightarrow>
          (let (r, w) = invoke s (\<lambda>t i. Logger_log env t (JString ''Try clear all loggers...'') [] i) w;
               toClear =
                 filter
                   (\<lambda>logger.
                      (case p_singleton w of
                         None \<Rightarrow> True
                       | Some s \<Rightarrow> p_name (objs w ! logger) \<noteq> p_name (objs w ! s))
                      \<and> (case p_noopSingletonLogger w of
                           None \<Rightarrow> True
                         | Some n \<Rightarrow> p_name (objs w ! logger) \<noteq> p_name (objs w ! n)))
                   (p_loggers w)
           in (None, clearAll_loop toClear w)))"

subsection \<open>The operations of the class\<close>

text \<open>
  What a client and the environment can do: construct, read the two singletons, set a
  property, log, clear the registry; and the \<open>error\<close> event of the stream of an
  instance. An operation on an instance names it by a reference; a reference to no
  constructed instance does nothing. \<open>tryClearLocalLog\<close> is not modelled.
\<close>

datatype op =
    New jsval jsval jsval jsval jsval jsval
  | GetSingleton
  | GetNoopSingleton
  | SetName nat jsval
  | SetLogLevel nat jsval
  | SetLogToFileSystem nat jsval
  | SetLogToConsole nat jsval
  | SetLogWithColor nat jsval
  | Emit logMethod nat jsval "jsval list"
  | StreamError nat exn
  | TryClearAllLoggers

fun exec :: "Env \<Rightarrow> op \<Rightarrow> World \<Rightarrow> exn option \<times> World" where
  "exec env (New name logLevel logToFileSystem logToConsole cutLogPrefix logWithColor) w =
     (case new_Logger env name logLevel logToFileSystem logToConsole cutLogPrefix logWithColor w of
        (Inl ex, w) \<Rightarrow> (Some ex, w)
      | (Inr this, w) \<Rightarrow> (None, w))"
| "exec env GetSingleton w =
     (case get_singleton env w of (Inl ex, w) \<Rightarrow> (Some ex, w) | (Inr s, w) \<Rightarrow> (None, w))"
| "exec env GetNoopSingleton w =
     (case get_noopSingleton env w of (Inl ex, w) \<Rightarrow> (Some ex, w) | (Inr s, w) \<Rightarrow> (None, w))"
| "exec env (SetName this v) w =
     (if this < length (objs w) then set_name env this v w else (None, w))"
| "exec env (SetLogLevel this v) w =
     (if this < length (objs w)
      then invoke this (\<lambda>t i. let (r, t) = set_logLevel env t v in (r, t, i)) w
      else (None, w))"
| "exec env (SetLogToFileSystem this v) w =
     (if this < length (objs w)
      then invoke this (\<lambda>t i. set_logToFileSystem env t v i) w
      else (None, w))"
| "exec env (SetLogToConsole this v) w =
     (if this < length (objs w)
      then invoke this (\<lambda>t i. let (r, t) = set_logToConsole env t v in (r, t, i)) w
      else (None, w))"
| "exec env (SetLogWithColor this v) w =
     (if this < length (objs w)
      then invoke this (\<lambda>t i. let (r, t) = set_logWithColor env t v in (r, t, i)) w
      else (None, w))"
| "exec env (Emit m this message args) w =
     (if this < length (objs w)
      then invoke this (\<lambda>t i. emit env m t message args i) w
      else (None, w))"
| "exec env (StreamError this error) w =
     (if this < length (objs w)
      then invoke this (\<lambda>t i. let (t, i) = p_onFileStreamError env t error i in (None, t, i)) w
      else (None, w))"
| "exec env TryClearAllLoggers w = tryClearAllLoggers env w"

definition run :: "Env \<Rightarrow> op list \<Rightarrow> World \<Rightarrow> World" where
  "run env ops w = foldl (\<lambda>w op. snd (exec env op w)) w ops"

section \<open>Notions for the statements\<close>

text \<open>
  A warning of an instance whose file sink is off reaches the console only: the gate,
  then \<open>_logConsole\<close>.
\<close>

definition warn_console :: "Env \<Rightarrow> Logger \<Rightarrow> string \<Rightarrow> jsval list \<Rightarrow> IO \<Rightarrow> Logger \<times> IO" where
  "warn_console env this s args io =
     (if p_checkLogLevel this LogLevel_Warning
      then p_logConsole env this LogLevel_Warning BrightYellow s args io else (this, io))"

text \<open>
  \<open>cache_le a b\<close>: \<open>b\<close> is \<open>a\<close> but for the two cached prefixes, and a prefix that \<open>a\<close>
  has cached is the one \<open>b\<close> has.
\<close>

definition cache_le :: "Logger \<Rightarrow> Logger \<Rightarrow> bool" where
  "cache_le a b \<longleftrightarrow>
     b = a\<lparr>p_cachedNonColorPrefix := p_cachedNonColorPrefix b,
           p_cachedColorPrefix := p_cachedColorPrefix b\<rparr>
     \<and> (p_cachedNonColorPrefix a \<noteq> None \<longrightarrow> p_cachedNonColorPrefix b = p_cachedNonColorPrefix a)
     \<and> (p_cachedColorPrefix a \<noteq> None \<longrightarrow> p_cachedColorPrefix b = p_cachedColorPrefix a)"

text \<open>The instance after the two \<open>??=\<close> of \<open>_createFileName\<close>.\<close>

definition withFileName :: "Env \<Rightarrow> Logger \<Rightarrow> Logger" where
  "withFileName env this =
     (let fileName =
            (case p_fileName this of
               Some f \<Rightarrow> f
             | None \<Rightarrow>
                 util_format env ''log_%s_%s_%s_%s.log''
                   [JString (p_name this), JString (process_version env),
                    JString (p_getFileSafeDateNowIsoString env),
                    JString (toUpperCase (p_processId env))]);
          fullyQualifiedLogFileName =
            (case p_fullyQualifiedLogFileName this of
               Some q \<Rightarrow> q
             | None \<Rightarrow> path_join env (p_logFileBaseDirectory env) fileName)
      in this\<lparr>p_fileName := Some fileName,
              p_fullyQualifiedLogFileName := Some fullyQualifiedLogFileName\<rparr>)"

text \<open>The warning of \<open>_createFileName\<close> for what \<open>mkdirSync\<close> threw: format and arguments.\<close>

definition mkdir_warning :: "exn \<Rightarrow> string \<times> jsval list" where
  "mkdir_warning error =
     (case error of
        Thrown t m code \<Rightarrow>
          if code = Some ''EPERM'' \<or> code = Some ''EACCES''
          then (''Unable to create log file directory. Please ensure that the current user has permission to create directories.'', [])
          else (''Unable to create log file directory. An unknown error has occurred '%s'.'', [JString m])
      | _ \<Rightarrow>
          (''Unable to create log file directory. An unknown error has occurred '%s'.'',
           [JString (message_of error ''<unknown error>'')]))"

subsection \<open>An environment and an instance to compute with\<close>

definition example_env :: Env where
  "example_env =
     \<lparr>constText = (\<lambda>c. ''invalid''),
      colorCode = (\<lambda>c. if c = Reset then ''</>'' else ''<c>''),
      util_format_other = (\<lambda>f args. f),
      path_join = (\<lambda>a b. a @ ''/'' @ b),
      p_localIp = ''10.0.0.1'',
      p_hostname = ''host'',
      p_processId = ''1f'',
      p_platform = ''linux'',
      p_architecture = ''x64'',
      p_nodeVersion = ''18.0.0'',
      process_version = ''v18.0.0'',
      p_logFileBaseDirectory = ''/logs'',
      dateNowIso = ''2022-01-01T00:00:00.000Z'',
      uptimeFixed7 = ''1.0000000'',
      stackFrames =
        (\<lambda>site. case site of
           In_constructLoggerMessage By_logConsole \<Rightarrow>
             [''    at Logger._constructLoggerMessage (index.js:1:1)'',
              ''    at Logger._logConsole (index.js:2:2)'']
         | In_constructLoggerMessage By_logLocally \<Rightarrow>
             [''    at Logger._constructLoggerMessage (index.js:1:1)'',
              ''    at Logger._logLocally (index.js:3:3)'']
         | In_constructColoredLoggerMessage \<Rightarrow>
             [''    at Logger._constructColoredLoggerMessage (index.js:4:4)'',
              ''    at Logger._logConsole (index.js:2:2)'']),
      mkdirSyncThrows = None,
      createWriteStreamThrows = (\<lambda>p. None),
      streamWriteThrows = (\<lambda>p. None),
      stdout_isTTY = Some True,
      stderr_isTTY = Some True,
      defaultLoggerName = ''singleton-logger'',
      defaultLogLevel = ''info'',
      defaultLoggerLogToFileSystem = True,
      defaultLoggerLogToConsole = True,
      defaultLoggerCutLogPrefix = True,
      defaultLoggerLogWithColor = True\<rparr>"

definition example_logger :: Logger where
  "example_logger =
     \<lparr>p_cutLogPrefix = True, p_name = ''logger'', p_logLevel = ''trace'',
      p_logToConsole = True, p_logToFileSystem = False, p_logWithColor = False,
      p_lockedFileWriteStream = None, p_fileName = None,
      p_fullyQualifiedLogFileName = None, p_cachedNonColorPrefix = None,
      p_cachedColorPrefix = None\<rparr>"

subsection \<open>A world to compute with\<close>

definition example_world :: World where
  "example_world =
     run example_env
       [New (JString ''logger'') (JString ''trace'') (JBoolean False) (JBoolean True)
          (JBoolean False) (JBoolean False)]
       initial_world"

subsection \<open>The console flag after the constructor\<close>

text \<open>
  What \<open>logToConsole && stdout.isTTY && stderr.isTTY\<close> with \<open>undefined\<close> turned into
  \<open>true\<close> comes to, for the flag \<open>c\<close> passed to the constructor.
\<close>

definition console_after_tty :: "Env \<Rightarrow> bool \<Rightarrow> bool" where
  "console_after_tty env c =
     (if \<not> c then False
      else (case stdout_isTTY env of
              None \<Rightarrow> True
            | Some False \<Rightarrow> False
            | Some True \<Rightarrow> (case stderr_isTTY env of Some False \<Rightarrow> False | _ \<Rightarrow> True)))"

subsection \<open>What an operation leaves alone\<close>

text \<open>
  \<open>cache_kept a b\<close>: \<open>b\<close> has the \<open>cutLogPrefix\<close> of \<open>a\<close> and every prefix that \<open>a\<close>
  has cached; \<open>keeps a b\<close>: it has the name of \<open>a\<close> too.
\<close>

definition cache_kept :: "Logger \<Rightarrow> Logger \<Rightarrow> bool" where
  "cache_kept a b \<longleftrightarrow>
     p_cutLogPrefix b = p_cutLogPrefix a
     \<and> (p_cachedNonColorPrefix a \<noteq> None \<longrightarrow> p_cachedNonColorPrefix b = p_cachedNonColorPrefix a)
     \<and> (p_cachedColorPrefix a \<noteq> None \<longrightarrow> p_cachedColorPrefix b = p_cachedColorPrefix a)"

definition keeps :: "Logger \<Rightarrow> Logger \<Rightarrow> bool" where
  "keeps a b \<longleftrightarrow> p_name b = p_name a \<and> cache_kept a b"

subsection \<open>A stream whose write throws\<close>

definition write_failure_text :: string where
  "write_failure_text = ''Unable to write to file stream due to \"%s\". Disabling file stream.''"

definition failing_io :: IO where
  "failing_io =
     \<lparr>stdout = [], stderr = [],
      streams =
        [\<lparr>ws_path = ''/logs/a.log'', ws_written = [], ws_ended = False,
          ws_destroyed = False, ws_writeThrows = Some (Thrown Error ''some error'' None)\<rparr>],
      baseDirExists = True\<rparr>"

definition file_logger :: Logger where
  "file_logger =
     example_logger\<lparr>p_logToFileSystem := True, p_lockedFileWriteStream := Some 0,
       p_fileName := Some ''a.log'', p_fullyQualifiedLogFileName := Some ''/logs/a.log''\<rparr>"

subsection \<open>An open stream\<close>

definition open_io :: IO where
  "open_io =
     \<lparr>stdout = [], stderr = [],
      streams =
        [\<lparr>ws_path = ''/logs/a.log'', ws_written = [], ws_ended = False,
          ws_destroyed = False, ws_writeThrows = None\<rparr>],
      baseDirExists = True\<rparr>"

text \<open>The example environment with a base directory that cannot be created:
  \<^verbatim>\<open>fs.mkdirSync\<close> throws.\<close>

definition denied_env :: Env where
  "denied_env =
     example_env\<lparr>mkdirSyncThrows :=
       Some (Thrown Error ''EACCES: permission denied, mkdir /logs'' (Some ''EACCES''))\<rparr>"

subsection \<open>The body of a line at the level Trace\<close>

text \<open>
  What \<open>_formatStackTrace\<close> is to make of the \<open>stack\<close> of an error created at a place
  with a message: the message, or \<open>Error\<close> where the message is empty, and the frames
  of the place, one a line. \<open>frameless_env\<close> is the example environment with a runtime
  that captures no frame (\<open>Error.stackTraceLimit = 0\<close>).
\<close>

definition stack_text :: "Env \<Rightarrow> stackSite \<Rightarrow> string \<Rightarrow> string" where
  "stack_text env site formatted =
     (if formatted = [] then ''Error'' else formatted)
     @ concat (map (\<lambda>f. CHR 0x0A # f) (stackFrames env site))"

definition frameless_env :: Env where
  "frameless_env = example_env\<lparr>stackFrames := (\<lambda>site. [])\<rparr>"

section \<open>Properties\<close>

subsection \<open>The level gate\<close>

lemma indexOf_LogLevel_value: "indexOf LogLevel_values (LogLevel_value l) = int (rank l)"
  by (cases l) (simp_all add: indexOf_def LogLevel_values_def)

lemma p_checkLogLevel_rank:
  "p_logLevel this = LogLevel_value c \<Longrightarrow> p_checkLogLevel this l = (rank l \<le> rank c)"
  by (simp add: p_checkLogLevel_def indexOf_LogLevel_value)

lemma emit_valid:
  "s \<noteq> [] \<Longrightarrow>
   emit env m this (JString s) args io =
     (if p_checkLogLevel this (level_of m)
      then p_log env this (level_of m) (color_of m) s args io else (None, this, io))"
  by (cases m)
     (simp_all add: Logger_log_def Logger_warning.simps Logger_trace_def Logger_debug_def
        Logger_information_def Logger_error_def)

lemma emit_function:
  "emit env m this (JFunction v) args io =
     (case v of
        JString s \<Rightarrow> emit env m this (JString s) args io
      | _ \<Rightarrow> (Some (Thrown TypeError (constText env invalidLogMessageType) None), this, io))"
  by (cases m; cases v)
     (simp_all add: Logger_log_def Logger_warning.simps Logger_trace_def Logger_debug_def
        Logger_information_def Logger_error_def)

lemma emit_invalid:
  "emit env m this JUndefined args io =
     (Some (Thrown ReferenceError (constText env invalidLogMessage) None), this, io)"
  "emit env m this JNull args io =
     (Some (Thrown ReferenceError (constText env invalidLogMessage) None), this, io)"
  "emit env m this (JBoolean b) args io =
     (Some (Thrown TypeError (constText env invalidLogMessageType) None), this, io)"
  "emit env m this (JNumber n) args io =
     (Some (Thrown TypeError (constText env invalidLogMessageType) None), this, io)"
  "emit env m this (JString []) args io =
     (Some (Thrown RangeError (constText env invalidLogMessage) None), this, io)"
  by (cases m;
      simp add: Logger_log_def Logger_warning.simps Logger_trace_def Logger_debug_def
        Logger_information_def Logger_error_def)+

subsection \<open>The setter of the name\<close>

lemma findIndex_ge: "- 1 \<le> findIndex p xs"
  by (induction xs) (auto simp: Let_def)

lemma findIndex_iff: "findIndex p xs \<noteq> -1 \<longleftrightarrow> (\<exists>x\<in>set xs. p x)"
proof (induction xs)
  case Nil
  show ?case by simp
next
  case (Cons x xs)
  show ?case
    using Cons findIndex_ge [of p xs] by (auto simp: Let_def)
qed

text \<open>
  Claim C10. For a logger that is in the registry, whose name matches the pattern as
  every constructed name does, assigning the property \<open>name\<close> the value it has raises
  the ReferenceError of a duplicate name and changes nothing: the search of the setter
  over the registry finds the instance itself.
\<close>

theorem set_name_own_name:
  assumes "this \<in> set (p_loggers w)" and "nameRegex_test (p_name (objs w ! this))"
  shows "set_name env this (JString (get_name (objs w ! this))) w =
           (Some (Thrown ReferenceError (alreadyExists_text (p_name (objs w ! this))) None), w)"
proof -
  have "findIndex (\<lambda>logger. p_name (objs w ! logger) = p_name (objs w ! this)) (p_loggers w) \<noteq> -1"
    using assms(1) by (auto simp: findIndex_iff)
  moreover have "length (p_name (objs w ! this)) \<noteq> 0"
    using assms(2) by (auto simp: nameRegex_test_def)
  ultimately show ?thesis
    using assms(2) by (simp add: set_name_def get_name_def)
qed

theorem set_name_own_name_witness:
  "0 \<in> set (p_loggers example_world)
   \<and> nameRegex_test (p_name (objs example_world ! 0))
   \<and> get_name (objs example_world ! 0) = ''logger''
   \<and> set_name example_env 0 (JString ''logger'') example_world =
       (Some (Thrown ReferenceError
          (''Logger with name '' @ [CHR 0x27] @ ''logger'' @ [CHR 0x27] @ '' already exists.'')
          None),
        example_world)"
proof -
  have a: "0 \<in> set (p_loggers example_world)" by code_simp
  have b: "nameRegex_test (p_name (objs example_world ! 0))" by code_simp
  have c: "get_name (objs example_world ! 0) = ''logger''" by code_simp
  have d: "p_name (objs example_world ! 0) = ''logger''" by code_simp
  show ?thesis
    using set_name_own_name [OF a b, of example_env] a b c d
    by (simp add: alreadyExists_text_def)
qed

subsection \<open>The constructor\<close>

lemma toLowerCase_LogLevel_value: "toLowerCase (LogLevel_value l) = LogLevel_value l"
  by (cases l; simp; code_simp)

lemma indexOf_LogLevel_value': "indexOf LogLevel_values (LogLevel_value l) \<noteq> -1"
  by (cases l) (simp_all add: indexOf_def LogLevel_values_def)

text \<open>
  Claim C7, as amended. A logger constructed with a name that matches the pattern and is
  not registered, a level of the enum and four boolean flags is registered, and its
  getters return the name, the level, \<open>logToFileSystem\<close>, \<open>cutLogPrefix\<close> and
  \<open>logWithColor\<close> as passed. \<open>logToConsole\<close> is false when false was passed; when true
  was passed it is false exactly when \<open>stdout.isTTY\<close> is \<open>false\<close>, or \<open>stdout.isTTY\<close>
  is \<open>true\<close> and \<open>stderr.isTTY\<close> is \<open>false\<close>, and it is true when the conjunction is
  \<open>undefined\<close>, as it is for a standard stream that is no terminal.
\<close>

theorem constructor_round_trip:
  assumes "nameRegex_test n"
    and "findIndex (\<lambda>logger. p_name (objs w ! logger) = n) (p_loggers w) = -1"
  shows "fst (new_Logger env (JString n) (JString (LogLevel_value l)) (JBoolean toFileSystem)
               (JBoolean toConsole) (JBoolean cutPrefix) (JBoolean withColor) w)
           = Inr (length (objs w))
     \<and> (let this = objs (snd (new_Logger env (JString n) (JString (LogLevel_value l))
               (JBoolean toFileSystem) (JBoolean toConsole) (JBoolean cutPrefix)
               (JBoolean withColor) w)) ! length (objs w)
        in get_name this = n \<and> get_logLevel this = LogLevel_value l
           \<and> get_logToFileSystem this = toFileSystem \<and> get_cutLogPrefix this = cutPrefix
           \<and> get_logWithColor this = withColor
           \<and> get_logToConsole this = console_after_tty env toConsole)"
proof -
  have "length n \<noteq> 0"
    using assms(1) by (auto simp: nameRegex_test_def)
  then show ?thesis
    using assms
    by (auto simp: new_Logger_def toLowerCase_LogLevel_value indexOf_LogLevel_value' Let_def
        js_and_def console_after_tty_def get_name_def get_logLevel_def get_logToFileSystem_def
        get_cutLogPrefix_def get_logWithColor_def get_logToConsole_def
        split: option.splits bool.splits)
qed

theorem constructor_round_trip_witness:
  "nameRegex_test ''logger''
   \<and> findIndex (\<lambda>logger. p_name (objs initial_world ! logger) = ''logger'')
        (p_loggers initial_world) = -1
   \<and> get_logToConsole
        (objs (snd (new_Logger (example_env\<lparr>stdout_isTTY := Some False\<rparr>) (JString ''logger'')
           (JString (LogLevel_value LogLevel_Trace)) (JBoolean False) (JBoolean True)
           (JBoolean False) (JBoolean True) initial_world)) ! length (objs initial_world))
       = False
   \<and> get_logWithColor
        (objs (snd (new_Logger (example_env\<lparr>stdout_isTTY := Some False\<rparr>) (JString ''logger'')
           (JString (LogLevel_value LogLevel_Trace)) (JBoolean False) (JBoolean True)
           (JBoolean False) (JBoolean True) initial_world)) ! length (objs initial_world))
       = True"
proof -
  have a: "nameRegex_test ''logger''" by code_simp
  have b: "findIndex (\<lambda>logger. p_name (objs initial_world ! logger) = ''logger'')
        (p_loggers initial_world) = -1"
    by (simp add: initial_world_def)
  have c: "console_after_tty (example_env\<lparr>stdout_isTTY := Some False\<rparr>) True = False"
    by (simp add: console_after_tty_def)
  show ?thesis
    using constructor_round_trip [OF a b, where env = "example_env\<lparr>stdout_isTTY := Some False\<rparr>"
        and l = LogLevel_Trace and toFileSystem = False and toConsole = True
        and cutPrefix = False and withColor = True] a b c
    by (simp add: Let_def)
qed

text \<open>
  Claim C7 as stated fails: with \<open>isTTY\<close> \<open>undefined\<close> on both standard streams,
  which is how Node reports that no terminal is attached, a logger constructed with
  \<open>logToConsole = true\<close> reads back \<open>true\<close>.
\<close>

theorem constructor_tty_counterexample:
  "stdout_isTTY (example_env\<lparr>stdout_isTTY := None, stderr_isTTY := None\<rparr>) = None
   \<and> stderr_isTTY (example_env\<lparr>stdout_isTTY := None, stderr_isTTY := None\<rparr>) = None
   \<and> fst (new_Logger (example_env\<lparr>stdout_isTTY := None, stderr_isTTY := None\<rparr>)
        (JString ''logger'') (JString ''trace'') (JBoolean False) (JBoolean True)
        (JBoolean False) (JBoolean False) initial_world) = Inr 0
   \<and> get_logToConsole
        (objs (snd (new_Logger (example_env\<lparr>stdout_isTTY := None, stderr_isTTY := None\<rparr>)
           (JString ''logger'') (JString ''trace'') (JBoolean False) (JBoolean True)
           (JBoolean False) (JBoolean False) initial_world)) ! 0)
       = True"
  by (simp add: example_env_def, code_simp)

subsection \<open>What the methods of an instance leave alone\<close>

lemma cache_le_refl [simp]: "cache_le a a"
  by (simp add: cache_le_def)

lemma p_getNonColorLogPrefix_le:
  "p_getNonColorLogPrefix env this = (c, t) \<Longrightarrow> cache_le this t"
  by (cases this)
     (auto simp: p_getNonColorLogPrefix_def cache_le_def Let_def split: option.splits if_splits)

lemma p_getColorPrefix_le: "p_getColorPrefix env this = (c, t) \<Longrightarrow> cache_le this t"
  by (cases this)
     (auto simp: p_getColorPrefix_def cache_le_def Let_def split: option.splits if_splits)

lemma p_constructLoggerMessage_le:
  "p_constructLoggerMessage env cb this l f a = (m, t) \<Longrightarrow> cache_le this t"
  by (auto simp: p_constructLoggerMessage_def Let_def split: prod.splits if_splits
      dest: p_getNonColorLogPrefix_le)

lemma p_constructColoredLoggerMessage_le:
  "p_constructColoredLoggerMessage env this l k f a = (m, t) \<Longrightarrow> cache_le this t"
  by (auto simp: p_constructColoredLoggerMessage_def Let_def split: prod.splits if_splits
      dest: p_getColorPrefix_le)

lemma p_logConsole_le: "p_logConsole env this l k f a io = (t, i) \<Longrightarrow> cache_le this t"
  by (auto simp: p_logConsole_def Let_def split: prod.splits if_splits
      dest: p_constructLoggerMessage_le p_constructColoredLoggerMessage_le)

lemma cache_le_fields:
  "cache_le a b \<Longrightarrow>
     p_name b = p_name a \<and> p_logLevel b = p_logLevel a \<and> p_logToConsole b = p_logToConsole a
     \<and> p_logToFileSystem b = p_logToFileSystem a \<and> p_logWithColor b = p_logWithColor a
     \<and> p_cutLogPrefix b = p_cutLogPrefix a
     \<and> p_lockedFileWriteStream b = p_lockedFileWriteStream a
     \<and> p_fileName b = p_fileName a
     \<and> p_fullyQualifiedLogFileName b = p_fullyQualifiedLogFileName a"
  unfolding cache_le_def by (cases a; cases b) auto

lemma p_logLocally_off:
  "\<not> p_logToFileSystem this \<Longrightarrow> p_logLocally env this l f a io = (None, this, io)"
  by (simp add: p_logLocally.simps)

lemma p_log_off:
  "\<not> p_logToFileSystem this \<Longrightarrow>
     p_log env this l k f a io = (None, p_logConsole env this l k f a io)"
  by (auto simp: p_log.simps p_logLocally_off split: prod.splits
      dest!: p_logConsole_le cache_le_fields)

lemma Logger_warning_off:
  "\<not> p_logToFileSystem this \<Longrightarrow> s \<noteq> [] \<Longrightarrow>
     Logger_warning env this (JString s) args io = (None, warn_console env this s args io)"
  by (simp add: Logger_warning.simps p_log_off warn_console_def)

lemma p_createFileName_ok:
  "baseDirExists io \<or> mkdirSyncThrows env = None \<Longrightarrow>
     p_createFileName env this io = (withFileName env this, io\<lparr>baseDirExists := True\<rparr>)"
  by (auto simp: p_createFileName.simps withFileName_def Let_def)

lemma p_createFileName_fail:
  "\<not> baseDirExists io \<Longrightarrow> mkdirSyncThrows env = Some error \<Longrightarrow>
     p_createFileName env this io =
       (let (t, i) = p_closeFileStream ((withFileName env this)\<lparr>p_logToFileSystem := False\<rparr>) io;
            (s, a) = mkdir_warning error
        in warn_console env t s a i)"
  by (cases error)
     (auto simp: p_createFileName.simps withFileName_def mkdir_warning_def Let_def
        p_closeFileStream_def Logger_warning_off)

lemma keeps_refl [simp]: "keeps a a"
  by (simp add: keeps_def cache_kept_def)

lemma cache_kept_refl [simp]: "cache_kept a a"
  by (simp add: cache_kept_def)

lemma keeps_trans: "keeps a b \<Longrightarrow> keeps b c \<Longrightarrow> keeps a c"
  by (auto simp: keeps_def cache_kept_def)

lemma cache_kept_trans: "cache_kept a b \<Longrightarrow> cache_kept b c \<Longrightarrow> cache_kept a c"
  by (auto simp: cache_kept_def)

lemma keeps_cache_kept: "keeps a b \<Longrightarrow> cache_kept a b"
  by (simp add: keeps_def)

lemma cache_le_keeps: "cache_le a b \<Longrightarrow> keeps a b"
  using cache_le_fields [of a b] by (auto simp: keeps_def cache_kept_def cache_le_def)

lemma warn_console_le: "warn_console env this s a io = (t, i) \<Longrightarrow> cache_le this t"
  by (auto simp: warn_console_def split: if_splits dest: p_logConsole_le)

lemma p_closeFileStream_keeps: "p_closeFileStream this io = (t, i) \<Longrightarrow> keeps this t"
  by (auto simp: p_closeFileStream_def keeps_def cache_kept_def Let_def)

lemma withFileName_keeps: "keeps this (withFileName env this)"
  by (simp add: withFileName_def keeps_def cache_kept_def Let_def)

lemma p_createFileName_keeps: "p_createFileName env this io = (t, i) \<Longrightarrow> keeps this t"
proof (cases "baseDirExists io \<or> mkdirSyncThrows env = None")
  case True
  assume "p_createFileName env this io = (t, i)"
  with True show ?thesis
    using withFileName_keeps [of this env] by (auto simp: p_createFileName_ok)
next
  case False
  assume r: "p_createFileName env this io = (t, i)"
  from False obtain error where e: "\<not> baseDirExists io" "mkdirSyncThrows env = Some error"
    by auto
  obtain t1 i1 where c: "p_closeFileStream ((withFileName env this)\<lparr>p_logToFileSystem := False\<rparr>) io = (t1, i1)"
    by (cases "p_closeFileStream ((withFileName env this)\<lparr>p_logToFileSystem := False\<rparr>) io")
  have k1: "keeps this t1"
    using c by (auto simp: p_closeFileStream_def withFileName_def keeps_def cache_kept_def Let_def)
  obtain s a where m: "mkdir_warning error = (s, a)"
    by (cases "mkdir_warning error")
  from r e c m have "warn_console env t1 s a i1 = (t, i)"
    by (simp add: p_createFileName_fail)
  then have "keeps t1 t"
    by (blast dest: warn_console_le cache_le_keeps)
  with k1 show ?thesis by (rule keeps_trans)
qed

lemma p_createFileStream_keeps: "p_createFileStream env this io = (r, t, i) \<Longrightarrow> keeps this t"
  by (auto simp: p_createFileStream_def keeps_def cache_kept_def split: option.splits)

lemma p_logLocally_keeps: "p_logLocally env this l f a io = (r, t, i) \<Longrightarrow> keeps this t"
  apply (subst (asm) p_logLocally.simps)
  apply (auto simp: Let_def Logger_warning_off p_closeFileStream_def
      split: if_splits prod.splits option.splits sum.splits
      dest!: p_createFileName_keeps p_createFileStream_keeps p_constructLoggerMessage_le
        warn_console_le cache_le_keeps)
  apply (auto simp: keeps_def cache_kept_def)
  done

lemma p_log_keeps: "p_log env this l k f a io = (r, t, i) \<Longrightarrow> keeps this t"
  by (auto simp: p_log.simps split: prod.splits
      dest!: p_logConsole_le cache_le_keeps p_logLocally_keeps intro: keeps_trans)

lemma emit_keeps: "emit env m this v a io = (r, t, i) \<Longrightarrow> keeps this t"
proof (cases v)
  case (JString s)
  assume e: "emit env m this v a io = (r, t, i)"
  show ?thesis
  proof (cases "s = []")
    case True
    with e JString show ?thesis by (simp add: emit_invalid del: emit.simps)
  next
    case False
    with e JString show ?thesis
      by (auto simp: emit_valid simp del: emit.simps split: if_splits dest: p_log_keeps)
  qed
next
  case (JFunction u)
  assume e: "emit env m this v a io = (r, t, i)"
  show ?thesis
  proof (cases u)
    case (JString s)
    show ?thesis
    proof (cases "s = []")
      case True
      with e JString JFunction show ?thesis
        by (simp add: emit_function emit_invalid del: emit.simps)
    next
      case False
      with e JString JFunction show ?thesis
        by (auto simp: emit_function emit_valid simp del: emit.simps split: if_splits
            dest: p_log_keeps)
    qed
  qed (use e JFunction in \<open>simp_all add: emit_function del: emit.simps\<close>)
qed (simp_all add: emit_invalid del: emit.simps)

subsection \<open>What reaches the sinks\<close>

lemma p_logConsole_off: "\<not> p_logToConsole this \<Longrightarrow> p_logConsole env this l k f a io = (this, io)"
  by (simp add: p_logConsole_def)

lemma p_logConsole_on:
  "p_logToConsole this \<Longrightarrow> p_logConsole env this l k f a io = (t, i) \<Longrightarrow>
     i = (if l = LogLevel_Error
          then io\<lparr>stderr := stderr io @
                 [fst (if p_logWithColor this
                       then p_constructColoredLoggerMessage env this l k f a
                       else p_constructLoggerMessage env By_logConsole this l f a)]\<rparr>
          else io\<lparr>stdout := stdout io @
                 [fst (if p_logWithColor this
                       then p_constructColoredLoggerMessage env this l k f a
                       else p_constructLoggerMessage env By_logConsole this l f a)]\<rparr>)"
  by (auto simp: p_logConsole_def Let_def split: if_splits prod.splits)

lemma p_logConsole_io:
  "p_logConsole env this l k f a io = (t, i) \<Longrightarrow>
     streams i = streams io \<and> baseDirExists i = baseDirExists io"
  by (auto simp: p_logConsole_def Let_def split: if_splits prod.splits)

lemma warn_console_io:
  "warn_console env this s a io = (t, i) \<Longrightarrow>
     streams i = streams io \<and> baseDirExists i = baseDirExists io \<and> stderr i = stderr io
     \<and> stdout i = stdout io @
          (if p_checkLogLevel this LogLevel_Warning \<and> p_logToConsole this
           then [fst (if p_logWithColor this
                      then p_constructColoredLoggerMessage env this LogLevel_Warning BrightYellow s a
                      else p_constructLoggerMessage env By_logConsole this LogLevel_Warning s a)]
           else [])"
  by (auto simp: warn_console_def p_logConsole_def Let_def split: if_splits prod.splits)

lemma stream_close_console:
  "stdout (stream_destroy sid (stream_end sid io)) = stdout io
   \<and> stderr (stream_destroy sid (stream_end sid io)) = stderr io
   \<and> baseDirExists (stream_destroy sid (stream_end sid io)) = baseDirExists io
   \<and> length (streams (stream_destroy sid (stream_end sid io))) = length (streams io)"
  by (simp add: stream_destroy_def stream_end_def)

lemma p_closeFileStream_console:
  "p_closeFileStream this io = (t, i) \<Longrightarrow>
     stdout i = stdout io \<and> stderr i = stderr io \<and> baseDirExists i = baseDirExists io
     \<and> length (streams i) = length (streams io)"
  using stream_close_console
  by (auto simp: p_closeFileStream_def Let_def split: option.splits)

lemma p_createFileName_console:
  "p_createFileName env this io = (t, i) \<Longrightarrow>
     stderr i = stderr io \<and> (\<exists>rest. stdout i = stdout io @ rest)
     \<and> length (streams i) = length (streams io)"
proof (cases "baseDirExists io \<or> mkdirSyncThrows env = None")
  case True
  assume "p_createFileName env this io = (t, i)"
  with True show ?thesis by (auto simp: p_createFileName_ok)
next
  case False
  assume r: "p_createFileName env this io = (t, i)"
  from False obtain error where e: "\<not> baseDirExists io" "mkdirSyncThrows env = Some error"
    by auto
  obtain t1 i1 where c: "p_closeFileStream ((withFileName env this)\<lparr>p_logToFileSystem := False\<rparr>) io = (t1, i1)"
    by (cases "p_closeFileStream ((withFileName env this)\<lparr>p_logToFileSystem := False\<rparr>) io")
  obtain s a where m: "mkdir_warning error = (s, a)"
    by (cases "mkdir_warning error")
  from r e c m have w: "warn_console env t1 s a i1 = (t, i)"
    by (simp add: p_createFileName_fail)
  show ?thesis
    using p_closeFileStream_console [OF c] warn_console_io [OF w] by auto
qed

lemma p_createFileStream_console:
  "p_createFileStream env this io = (r, t, i) \<Longrightarrow> stdout i = stdout io \<and> stderr i = stderr io"
  by (auto simp: p_createFileStream_def split: option.splits)

lemma stream_write_console:
  "stream_write sid line io = Inr i \<Longrightarrow> stdout i = stdout io \<and> stderr i = stderr io"
  by (auto simp: stream_write_def Let_def split: if_splits option.splits)

lemma p_logLocally_console:
  "p_logLocally env this l f a io = (r, t, i) \<Longrightarrow>
     stderr i = stderr io \<and> (\<exists>rest. stdout i = stdout io @ rest)"
  apply (subst (asm) p_logLocally.simps)
  apply (auto simp: Let_def Logger_warning_off p_closeFileStream_def
      split: if_splits prod.splits option.splits sum.splits
      dest!: p_createFileName_console p_createFileStream_console stream_write_console
        warn_console_io)
  apply (auto simp: stream_close_console)
  done


lemma p_logLocally_write_ok:
  assumes "p_logToFileSystem this" and "p_lockedFileWriteStream this = Some sid"
    and "sid < length (streams io)" and "ws_writeThrows (streams io ! sid) = None"
    and "\<not> ws_ended (streams io ! sid)" and "\<not> ws_destroyed (streams io ! sid)"
  shows "p_logLocally env this l f a io =
           (None, snd (p_constructLoggerMessage env By_logLocally this l f a),
            io\<lparr>streams := (streams io)[sid := (streams io ! sid)
              \<lparr>ws_written := ws_written (streams io ! sid) @
                 [fst (p_constructLoggerMessage env By_logLocally this l f a)]\<rparr>]\<rparr>)"
  using assms
  by (simp add: p_logLocally.simps stream_write_def Let_def split: prod.splits)

lemma p_logLocally_open_ok:
  assumes "p_logToFileSystem this" and "p_lockedFileWriteStream this = None"
    and "baseDirExists io \<or> mkdirSyncThrows env = None"
    and "p_fullyQualifiedLogFileName (withFileName env this) = Some path"
    and "createWriteStreamThrows env path = None" and "streamWriteThrows env path = None"
  shows "p_logLocally env this l f a io =
           (None,
            snd (p_constructLoggerMessage env By_logLocally
              ((withFileName env this)\<lparr>p_lockedFileWriteStream := Some (length (streams io))\<rparr>)
              l f a),
            io\<lparr>baseDirExists := True,
               streams := streams io @
                 [\<lparr>ws_path = path,
                   ws_written =
                     [fst (p_constructLoggerMessage env By_logLocally
                        ((withFileName env this)
                           \<lparr>p_lockedFileWriteStream := Some (length (streams io))\<rparr>) l f a)],
                   ws_ended = False, ws_destroyed = False, ws_writeThrows = None\<rparr>]\<rparr>)"
proof -
  have fl: "p_logToFileSystem (withFileName env this)"
    using assms(1) by (simp add: withFileName_def Let_def)
  have cf: "p_createFileName env this io = (withFileName env this, io\<lparr>baseDirExists := True\<rparr>)"
    using assms(3) by (rule p_createFileName_ok)
  obtain line t2 where c: "p_constructLoggerMessage env By_logLocally
      ((withFileName env this)\<lparr>p_lockedFileWriteStream := Some (length (streams io))\<rparr>) l f a
      = (line, t2)"
    by (cases "p_constructLoggerMessage env By_logLocally
      ((withFileName env this)\<lparr>p_lockedFileWriteStream := Some (length (streams io))\<rparr>) l f a")
  show ?thesis
    using assms cf c
    by (simp add: p_logLocally.simps p_createFileStream_def stream_write_def Let_def
        nth_append)
qed

lemma p_constructLoggerMessage_line_cong:
  "p_cutLogPrefix t = p_cutLogPrefix u \<Longrightarrow> p_cachedNonColorPrefix t = p_cachedNonColorPrefix u
     \<Longrightarrow> p_name t = p_name u \<Longrightarrow>
   fst (p_constructLoggerMessage env cb t l f a) = fst (p_constructLoggerMessage env cb u l f a)"
  by (simp add: p_constructLoggerMessage_def p_getNonColorLogPrefix_def Let_def
      p_getConstructedShortNonColorLogPrefix_def p_getConstructedLongNonColorLogPrefix_def
      split: option.splits)

text \<open>
  Claim C1, as amended. Whatever level \<open>c\<close> the logger is configured with and
  whichever of the six log methods is called with a valid message, the call passes the
  gate exactly when the rank of the level of the method is at most the rank of \<open>c\<close>.
  A call that does not pass returns with nothing written and nothing changed. A call
  that passes writes the line of the message to the console when \<open>logToConsole\<close> is
  true: as the next line of the standard error for \<open>error\<close>, of the standard output for
  the other methods. When \<open>logToFileSystem\<close> is true it appends the line to the stream
  the logger holds, given that the stream is open and its \<open>write\<close> throws nothing; and
  where the logger holds no stream yet, the base directory exists or can be created and
  neither opening nor writing a stream throws, the line is the one thing written to the
  stream the call opens. With both sinks off the call writes nothing and changes
  nothing. No method passes a logger configured with None, every method passes one
  configured with Trace.
\<close>

theorem level_gate:
  "(p_checkLogLevel (this\<lparr>p_logLevel := LogLevel_value c\<rparr>) (level_of m)
      \<longleftrightarrow> rank (level_of m) \<le> rank c)
   \<and> (s \<noteq> [] \<longrightarrow> \<not> rank (level_of m) \<le> rank c \<longrightarrow>
        emit env m (this\<lparr>p_logLevel := LogLevel_value c\<rparr>) (JString s) args io =
          (None, this\<lparr>p_logLevel := LogLevel_value c\<rparr>, io))
   \<and> (s \<noteq> [] \<longrightarrow> rank (level_of m) \<le> rank c \<longrightarrow> p_logToConsole this \<longrightarrow>
        (\<exists>rest.
           if level_of m = LogLevel_Error
           then stderr (snd (snd (emit env m (this\<lparr>p_logLevel := LogLevel_value c\<rparr>)
                  (JString s) args io))) =
                  stderr io @
                    [fst (if p_logWithColor this
                          then p_constructColoredLoggerMessage env
                                 (this\<lparr>p_logLevel := LogLevel_value c\<rparr>) (level_of m)
                                 (color_of m) s args
                          else p_constructLoggerMessage env By_logConsole
                                 (this\<lparr>p_logLevel := LogLevel_value c\<rparr>) (level_of m) s args)]
                \<and> stdout (snd (snd (emit env m (this\<lparr>p_logLevel := LogLevel_value c\<rparr>)
                      (JString s) args io))) = stdout io @ rest
           else stdout (snd (snd (emit env m (this\<lparr>p_logLevel := LogLevel_value c\<rparr>)
                  (JString s) args io))) =
                  stdout io @
                    fst (if p_logWithColor this
                         then p_constructColoredLoggerMessage env
                                (this\<lparr>p_logLevel := LogLevel_value c\<rparr>) (level_of m)
                                (color_of m) s args
                         else p_constructLoggerMessage env By_logConsole
                                (this\<lparr>p_logLevel := LogLevel_value c\<rparr>) (level_of m) s args)
                    # rest
                \<and> stderr (snd (snd (emit env m (this\<lparr>p_logLevel := LogLevel_value c\<rparr>)
                      (JString s) args io))) = stderr io))
   \<and> (s \<noteq> [] \<longrightarrow> rank (level_of m) \<le> rank c \<longrightarrow> p_logToFileSystem this \<longrightarrow>
        p_lockedFileWriteStream this = Some sid \<longrightarrow> sid < length (streams io) \<longrightarrow>
        ws_writeThrows (streams io ! sid) = None \<longrightarrow>
        \<not> ws_ended (streams io ! sid) \<longrightarrow> \<not> ws_destroyed (streams io ! sid) \<longrightarrow>
        ws_written (streams (snd (snd (emit env m (this\<lparr>p_logLevel := LogLevel_value c\<rparr>)
           (JString s) args io))) ! sid) =
          ws_written (streams io ! sid) @
            [fst (p_constructLoggerMessage env By_logLocally
               (fst (p_logConsole env (this\<lparr>p_logLevel := LogLevel_value c\<rparr>) (level_of m)
                  (color_of m) s args io))
               (level_of m) s args)])
   \<and> (s \<noteq> [] \<longrightarrow> rank (level_of m) \<le> rank c \<longrightarrow> p_logToFileSystem this \<longrightarrow>
        p_lockedFileWriteStream this = None \<longrightarrow>
        (baseDirExists io \<or> mkdirSyncThrows env = None) \<longrightarrow>
        (\<forall>p. createWriteStreamThrows env p = None) \<longrightarrow>
        (\<forall>p. streamWriteThrows env p = None) \<longrightarrow>
        map ws_written (streams (snd (snd (emit env m (this\<lparr>p_logLevel := LogLevel_value c\<rparr>)
           (JString s) args io)))) =
          map ws_written (streams io) @
            [[fst (p_constructLoggerMessage env By_logLocally
                (fst (p_logConsole env (this\<lparr>p_logLevel := LogLevel_value c\<rparr>) (level_of m)
                   (color_of m) s args io))
                (level_of m) s args)]])
   \<and> (s \<noteq> [] \<longrightarrow> \<not> p_logToConsole this \<longrightarrow> \<not> p_logToFileSystem this \<longrightarrow>
        emit env m (this\<lparr>p_logLevel := LogLevel_value c\<rparr>) (JString s) args io =
          (None, this\<lparr>p_logLevel := LogLevel_value c\<rparr>, io))
   \<and> \<not> rank (level_of m) \<le> rank LogLevel_None
   \<and> rank (level_of m) \<le> rank LogLevel_Trace"
proof -
  define L where "L = this\<lparr>p_logLevel := LogLevel_value c\<rparr>"
  have gate: "p_checkLogLevel L (level_of m) \<longleftrightarrow> rank (level_of m) \<le> rank c"
    by (simp add: L_def p_checkLogLevel_rank)
  have Lf: "p_logToConsole L = p_logToConsole this" "p_logWithColor L = p_logWithColor this"
    "p_logToFileSystem L = p_logToFileSystem this"
    "p_lockedFileWriteStream L = p_lockedFileWriteStream this"
    by (simp_all add: L_def)
  have em: "emit env m L (JString s) args io =
      (if rank (level_of m) \<le> rank c
       then p_log env L (level_of m) (color_of m) s args io else (None, L, io))"
    if "s \<noteq> []"
    using that gate by (simp add: emit_valid del: emit.simps)
  obtain t1 i1 where c1: "p_logConsole env L (level_of m) (color_of m) s args io = (t1, i1)"
    by (cases "p_logConsole env L (level_of m) (color_of m) s args io")
  obtain r t2 i2 where c2: "p_logLocally env t1 (level_of m) s args i1 = (r, t2, i2)"
    by (cases "p_logLocally env t1 (level_of m) s args i1")
  have pl: "p_log env L (level_of m) (color_of m) s args io = (r, t2, i2)"
    using c1 c2 by (simp add: p_log.simps)
  note f1 = cache_le_fields [OF p_logConsole_le [OF c1]]
  note loc = p_logLocally_console [OF c2]
  have A: "s \<noteq> [] \<Longrightarrow> \<not> rank (level_of m) \<le> rank c \<Longrightarrow>
      emit env m L (JString s) args io = (None, L, io)"
    by (simp add: em del: emit.simps)
  have B: "\<exists>rest.
      if level_of m = LogLevel_Error
      then stderr (snd (snd (emit env m L (JString s) args io))) =
             stderr io @
               [fst (if p_logWithColor this
                     then p_constructColoredLoggerMessage env L (level_of m) (color_of m) s args
                     else p_constructLoggerMessage env By_logConsole L (level_of m) s args)]
           \<and> stdout (snd (snd (emit env m L (JString s) args io))) = stdout io @ rest
      else stdout (snd (snd (emit env m L (JString s) args io))) =
             stdout io @
               fst (if p_logWithColor this
                    then p_constructColoredLoggerMessage env L (level_of m) (color_of m) s args
                    else p_constructLoggerMessage env By_logConsole L (level_of m) s args)
               # rest
           \<and> stderr (snd (snd (emit env m L (JString s) args io))) = stderr io"
    if "s \<noteq> []" "rank (level_of m) \<le> rank c" "p_logToConsole this"
  proof -
    obtain rest where rest: "stdout i2 = stdout i1 @ rest" and se: "stderr i2 = stderr i1"
      using loc by auto
    have on: "p_logToConsole L" using that Lf by simp
    note i1 = p_logConsole_on [OF on c1]
    show ?thesis
      using that em pl rest se i1 Lf
      by (cases "level_of m = LogLevel_Error") (auto simp del: emit.simps)
  qed
  have C: "ws_written (streams (snd (snd (emit env m L (JString s) args io))) ! sid) =
      ws_written (streams io ! sid) @
        [fst (p_constructLoggerMessage env By_logLocally
           (fst (p_logConsole env L (level_of m) (color_of m) s args io)) (level_of m) s args)]"
    if "s \<noteq> []" "rank (level_of m) \<le> rank c" "p_logToFileSystem this"
      "p_lockedFileWriteStream this = Some sid" "sid < length (streams io)"
      "ws_writeThrows (streams io ! sid) = None"
      "\<not> ws_ended (streams io ! sid)" "\<not> ws_destroyed (streams io ! sid)"
  proof -
    note io1 = p_logConsole_io [OF c1]
    have st: "p_logToFileSystem t1" "p_lockedFileWriteStream t1 = Some sid"
      "sid < length (streams i1)" "ws_writeThrows (streams i1 ! sid) = None"
      "\<not> ws_ended (streams i1 ! sid)" "\<not> ws_destroyed (streams i1 ! sid)"
      using that f1 Lf io1 by simp_all
    have "i2 = i1\<lparr>streams := (streams i1)[sid := (streams i1 ! sid)
              \<lparr>ws_written := ws_written (streams i1 ! sid) @
                 [fst (p_constructLoggerMessage env By_logLocally t1 (level_of m) s args)]\<rparr>]\<rparr>"
      using c2 p_logLocally_write_ok [OF st, of env "level_of m" s args] by simp
    then have "ws_written (streams i2 ! sid) =
        ws_written (streams io ! sid) @
          [fst (p_constructLoggerMessage env By_logLocally t1 (level_of m) s args)]"
      using io1 that(5) by simp
    then show ?thesis
      using that(1,2) em pl c1 by (simp del: emit.simps)
  qed
  have C2: "map ws_written (streams (snd (snd (emit env m L (JString s) args io)))) =
      map ws_written (streams io) @
        [[fst (p_constructLoggerMessage env By_logLocally
            (fst (p_logConsole env L (level_of m) (color_of m) s args io)) (level_of m) s args)]]"
    if "s \<noteq> []" "rank (level_of m) \<le> rank c" "p_logToFileSystem this"
      "p_lockedFileWriteStream this = None" "baseDirExists io \<or> mkdirSyncThrows env = None"
      "\<forall>p. createWriteStreamThrows env p = None" "\<forall>p. streamWriteThrows env p = None"
  proof -
    note io1 = p_logConsole_io [OF c1]
    obtain path where path: "p_fullyQualifiedLogFileName (withFileName env t1) = Some path"
      by (simp add: withFileName_def Let_def)
    have st: "p_logToFileSystem t1" "p_lockedFileWriteStream t1 = None"
      "baseDirExists i1 \<or> mkdirSyncThrows env = None"
      "createWriteStreamThrows env path = None" "streamWriteThrows env path = None"
      using that f1 Lf io1 by simp_all
    have ln: "fst (p_constructLoggerMessage env By_logLocally
        ((withFileName env t1)\<lparr>p_lockedFileWriteStream := Some (length (streams i1))\<rparr>)
        (level_of m) s args)
      = fst (p_constructLoggerMessage env By_logLocally t1 (level_of m) s args)"
      by (rule p_constructLoggerMessage_line_cong) (simp_all add: withFileName_def Let_def)
    have "map ws_written (streams i2) =
        map ws_written (streams i1) @
          [[fst (p_constructLoggerMessage env By_logLocally t1 (level_of m) s args)]]"
      using c2 p_logLocally_open_ok [OF st(1,2,3) path st(4,5), of "level_of m" s args] ln
      by auto
    then show ?thesis
      using that(1,2) em pl c1 io1 by (simp del: emit.simps)
  qed
  have D: "emit env m L (JString s) args io = (None, L, io)"
    if "s \<noteq> []" "\<not> p_logToConsole this" "\<not> p_logToFileSystem this"
    using that Lf by (simp add: em p_log_off p_logConsole_off del: emit.simps)
  have E: "\<not> rank (level_of m) \<le> rank LogLevel_None \<and> rank (level_of m) \<le> rank LogLevel_Trace"
    by (cases m) simp_all
  show ?thesis
    using gate A B C C2 D E unfolding L_def by blast
qed


theorem level_gate_witness:
  "''message'' \<noteq> [] \<and> rank (level_of Error_method) \<le> rank LogLevel_Warning
   \<and> \<not> rank (level_of Debug) \<le> rank LogLevel_Warning
   \<and> p_logToConsole example_logger \<and> p_logToFileSystem file_logger
   \<and> stderr (snd (snd (emit example_env Error_method
          (example_logger\<lparr>p_logLevel := LogLevel_value LogLevel_Warning\<rparr>)
          (JString ''message'') [] initial_io)))
       = [''[2022-01-01T00:00:00.000Z][10.0.0.1][host][logger][ERROR] message'' @ [CHR 0x0A]]
   \<and> emit example_env Debug (example_logger\<lparr>p_logLevel := LogLevel_value LogLevel_Warning\<rparr>)
         (JString ''message'') [] initial_io =
       (None, example_logger\<lparr>p_logLevel := LogLevel_value LogLevel_Warning\<rparr>, initial_io)
   \<and> ws_written (streams (snd (snd (emit example_env Error_method
          (file_logger\<lparr>p_logLevel := LogLevel_value LogLevel_Warning\<rparr>)
          (JString ''message'') [] open_io))) ! 0)
       = [''[2022-01-01T00:00:00.000Z][10.0.0.1][host][logger][ERROR] message'' @ [CHR 0x0A]]"
proof -
  have h: "''message'' \<noteq> []" "rank (level_of Error_method) \<le> rank LogLevel_Warning"
    "\<not> rank (level_of Debug) \<le> rank LogLevel_Warning"
    "p_logToConsole example_logger" "p_logToFileSystem file_logger"
    by (simp_all add: example_logger_def file_logger_def)
  have sup: "emit example_env Debug
       (example_logger\<lparr>p_logLevel := LogLevel_value LogLevel_Warning\<rparr>)
         (JString ''message'') [] initial_io =
       (None, example_logger\<lparr>p_logLevel := LogLevel_value LogLevel_Warning\<rparr>, initial_io)"
    using level_gate [where this = example_logger and c = LogLevel_Warning and m = Debug
        and s = "''message''" and env = example_env and args = "[]" and io = initial_io] h
    by blast
  have err: "stderr (snd (snd (emit example_env Error_method
          (example_logger\<lparr>p_logLevel := LogLevel_value LogLevel_Warning\<rparr>)
          (JString ''message'') [] initial_io)))
       = [''[2022-01-01T00:00:00.000Z][10.0.0.1][host][logger][ERROR] message'' @ [CHR 0x0A]]"
    by code_simp
  have fil: "ws_written (streams (snd (snd (emit example_env Error_method
          (file_logger\<lparr>p_logLevel := LogLevel_value LogLevel_Warning\<rparr>)
          (JString ''message'') [] open_io))) ! 0)
       = [''[2022-01-01T00:00:00.000Z][10.0.0.1][host][logger][ERROR] message'' @ [CHR 0x0A]]"
    by code_simp
  show ?thesis
    using h sup err fil by (simp del: emit.simps)
qed

text \<open>
  Claim C1 as stated fails: on a logger configured with Trace whose two sinks are off,
  \<open>error\<close> passes the gate and nothing is emitted.
\<close>

theorem level_gate_counterexample:
  "rank (level_of Error_method) \<le> rank LogLevel_Trace
   \<and> p_logLevel (example_logger\<lparr>p_logToConsole := False\<rparr>) = LogLevel_value LogLevel_Trace
   \<and> p_checkLogLevel (example_logger\<lparr>p_logToConsole := False\<rparr>) (level_of Error_method)
   \<and> get_logToConsole (example_logger\<lparr>p_logToConsole := False\<rparr>) = False
   \<and> get_logToFileSystem (example_logger\<lparr>p_logToConsole := False\<rparr>) = False
   \<and> emit example_env Error_method (example_logger\<lparr>p_logToConsole := False\<rparr>)
         (JString ''message'') [] initial_io =
       (None, example_logger\<lparr>p_logToConsole := False\<rparr>, initial_io)
   \<and> stdout initial_io = [] \<and> stderr initial_io = [] \<and> streams initial_io = []"
  by code_simp

subsection \<open>Message validation\<close>

text \<open>The six log methods validate the message in the same way: \<^verbatim>\<open>undefined\<close> and
  \<^verbatim>\<open>null\<close> raise a \<^verbatim>\<open>ReferenceError\<close>, a value that is neither a string nor a
  function and a function whose result is not a string raise a \<^verbatim>\<open>TypeError\<close>, the
  empty string (given or returned) raises a \<^verbatim>\<open>RangeError\<close>, and nothing is written in
  any of these cases. A function returning a non-empty string is treated exactly as
  that string.\<close>

lemma message_validation:
  "emit env m this JUndefined args io =
     (Some (Thrown ReferenceError (constText env invalidLogMessage) None), this, io)
   \<and> emit env m this JNull args io =
       (Some (Thrown ReferenceError (constText env invalidLogMessage) None), this, io)
   \<and> emit env m this (JBoolean b) args io =
       (Some (Thrown TypeError (constText env invalidLogMessageType) None), this, io)
   \<and> emit env m this (JNumber n) args io =
       (Some (Thrown TypeError (constText env invalidLogMessageType) None), this, io)
   \<and> (\<not> is_JString v \<longrightarrow>
        emit env m this (JFunction v) args io =
          (Some (Thrown TypeError (constText env invalidLogMessageType) None), this, io))
   \<and> emit env m this (JString []) args io =
       (Some (Thrown RangeError (constText env invalidLogMessage) None), this, io)
   \<and> emit env m this (JFunction (JString [])) args io =
       (Some (Thrown RangeError (constText env invalidLogMessage) None), this, io)
   \<and> (s \<noteq> [] \<longrightarrow>
        emit env m this (JFunction (JString s)) args io =
          (if p_checkLogLevel this (level_of m)
           then p_log env this (level_of m) (color_of m) s args io
           else (None, this, io)))"
proof -
  have fn: "\<not> is_JString v \<Longrightarrow>
      emit env m this (JFunction v) args io =
        (Some (Thrown TypeError (constText env invalidLogMessageType) None), this, io)"
    by (cases v) (simp_all add: emit_function del: emit.simps)
  have ok: "s \<noteq> [] \<Longrightarrow>
      emit env m this (JFunction (JString s)) args io =
        (if p_checkLogLevel this (level_of m)
         then p_log env this (level_of m) (color_of m) s args io
         else (None, this, io))"
    by (simp add: emit_function emit_valid del: emit.simps)
  show ?thesis
    using fn ok by (simp add: emit_invalid emit_function del: emit.simps)
qed

text \<open>Claim C3 fails in the code on its last part, ``when the message is a function
  returning a valid non-empty string, the call succeeds''. Take a logger with
  \<^verbatim>\<open>logToFileSystem\<close> true that holds no stream yet, a base directory that does not exist
  and an \<^verbatim>\<open>fs.mkdirSync\<close> that throws, and call \<^verbatim>\<open>log(() => 'message')\<close>. The console
  line is written with the returned string as its text; then \<^verbatim>\<open>_logLocally\<close> calls
  \<^verbatim>\<open>_createFileName\<close>, which catches the error of \<^verbatim>\<open>mkdirSync\<close>, turns the sink off,
  clears the file name and reports a warning, and, outside its \<^verbatim>\<open>try\<close>, goes on to
  \<^verbatim>\<open>_createFileStream\<close>: \<^verbatim>\<open>fs.createWriteStream(undefined)\<close> throws a \<^verbatim>\<open>TypeError\<close>, and
  the call is rejected with it.\<close>

theorem message_function_rejects:
  "p_logToFileSystem (example_logger\<lparr>p_logToFileSystem := True\<rparr>)
   \<and> p_lockedFileWriteStream (example_logger\<lparr>p_logToFileSystem := True\<rparr>) = None
   \<and> baseDirExists initial_io = False
   \<and> mkdirSyncThrows denied_env =
       Some (Thrown Error ''EACCES: permission denied, mkdir /logs'' (Some ''EACCES''))
   \<and> fst (emit denied_env Log (example_logger\<lparr>p_logToFileSystem := True\<rparr>)
          (JFunction (JString ''message'')) [] initial_io) = Some invalid_path_error
   \<and> stdout (snd (snd (emit denied_env Log (example_logger\<lparr>p_logToFileSystem := True\<rparr>)
          (JFunction (JString ''message'')) [] initial_io)))
       = [''[2022-01-01T00:00:00.000Z][10.0.0.1][host][logger][INFO] message'' @ [CHR 0x0A],
          ''[2022-01-01T00:00:00.000Z][10.0.0.1][host][logger][WARNING] ''
          @ ''Unable to create log file directory. Please ensure that the current user has ''
          @ ''permission to create directories.'' @ [CHR 0x0A]]
   \<and> get_logToFileSystem
         (fst (snd (emit denied_env Log (example_logger\<lparr>p_logToFileSystem := True\<rparr>)
            (JFunction (JString ''message'')) [] initial_io))) = False
   \<and> streams (snd (snd (emit denied_env Log (example_logger\<lparr>p_logToFileSystem := True\<rparr>)
          (JFunction (JString ''message'')) [] initial_io))) = []"
  by code_simp

subsection \<open>The stack trace in a line at the level Trace\<close>

lemma split_nl_nonempty: "split_nl s \<noteq> []"
  by (induction s) (auto split: list.splits)

lemma join_nl_Cons: "ls \<noteq> [] \<Longrightarrow> join_nl (l # ls) = l @ CHR 0x0A # join_nl ls"
  by (cases ls) auto

lemma join_split_nl: "join_nl (split_nl s) = s"
proof (induction s)
  case Nil
  show ?case by simp
next
  case (Cons c s)
  obtain l ls where sp: "split_nl s = l # ls"
    using split_nl_nonempty [of s] by (cases "split_nl s") auto
  show ?case
  proof (cases "c = CHR 0x0A")
    case True
    with Cons show ?thesis by (simp add: join_nl_Cons split_nl_nonempty)
  next
    case False
    with Cons sp show ?thesis by (cases ls) auto
  qed
qed

lemma split_nl_append_line:
  "CHR 0x0A \<notin> set p \<Longrightarrow> split_nl (p @ s) = (p @ hd (split_nl s)) # tl (split_nl s)"
  using split_nl_nonempty [of s]
  by (induction p) (auto split: list.splits)

lemma p_formatStackTrace_marker: "p_formatStackTrace (''Error: '' @ s) = s"
proof -
  have "split_nl (''Error: '' @ s) = (''Error: '' @ hd (split_nl s)) # tl (split_nl s)"
    by (rule split_nl_append_line) simp
  then have "p_formatStackTrace (''Error: '' @ s) = join_nl (hd (split_nl s) # tl (split_nl s))"
    by (simp add: p_formatStackTrace_def replace_Error_marker_def Let_def)
  then show ?thesis
    using split_nl_nonempty [of s] by (simp add: join_split_nl)
qed

lemma p_formatStackTrace_Error:
  "p_formatStackTrace (''Error'' @ concat (map (\<lambda>f. CHR 0x0A # f) fs)) =
     ''Error'' @ concat (map (\<lambda>f. CHR 0x0A # f) fs)"
proof (cases fs)
  case Nil
  then show ?thesis
    by (simp add: p_formatStackTrace_def replace_Error_marker_def Let_def)
next
  case (Cons f fs')
  then obtain r where r: "concat (map (\<lambda>f. CHR 0x0A # f) fs) = CHR 0x0A # r"
    by simp
  have "split_nl (''Error'' @ CHR 0x0A # r) = ''Error'' # split_nl r"
    by simp
  then show ?thesis
    using split_nl_nonempty [of r]
    by (simp add: r p_formatStackTrace_def replace_Error_marker_def Let_def join_nl_Cons
        join_split_nl)
qed

lemma p_formatStackTrace_stack:
  "p_formatStackTrace (Error_stack env site text) = stack_text env site text"
  using p_formatStackTrace_marker [of "text @ concat (map (\<lambda>f. CHR 0x0A # f) (stackFrames env site))"]
    p_formatStackTrace_Error [of "stackFrames env site"]
  by (simp add: Error_stack_def stack_text_def)

lemma util_format_single: "util_format env ''%s'' [JString s] = s"
  by (simp add: util_format_def)

lemma toUpperCase_trace: "toUpperCase ''trace'' = ''TRACE''"
  by code_simp

lemma plain_trace_line:
  "fst (p_constructLoggerMessage env cb this LogLevel_Trace format args) =
     ''['' @ p_getDateNowIsoString env @ '']''
     @ (if p_cutLogPrefix this then [] else ''['' @ p_getUptime env @ '']'')
     @ fst (p_getNonColorLogPrefix env this) @ ''[TRACE] ''
     @ stack_text env (In_constructLoggerMessage cb)
         (if length args = 0 then format else util_format env format args)
     @ [CHR 0x0A]"
  unfolding p_constructLoggerMessage_def Let_def
  by (simp add: toUpperCase_trace util_format_single p_formatStackTrace_stack util_format_def
      split: prod.splits)

lemma colored_trace_line:
  "fst (p_constructColoredLoggerMessage env this LogLevel_Trace color format args) =
     p_getDefaultColorSection env (p_getDateNowIsoString env)
     @ (if p_cutLogPrefix this then [] else p_getDefaultColorSection env (p_getUptime env))
     @ fst (p_getColorPrefix env this)
     @ p_getColorSection env color ''TRACE'' @ '' '' @ colorCode env color
     @ stack_text env In_constructColoredLoggerMessage
         (if length args = 0 then format else util_format env format args)
     @ colorCode env Reset @ [CHR 0x0A]"
  unfolding p_constructColoredLoggerMessage_def Let_def
  by (simp add: toUpperCase_trace util_format_single p_formatStackTrace_stack util_format_def
      split: prod.splits)

lemma p_logConsole_prefix:
  "fst (p_getNonColorLogPrefix env (fst (p_logConsole env this l k f a io))) =
     fst (p_getNonColorLogPrefix env this)"
  by (auto simp: p_logConsole_def p_constructLoggerMessage_def
      p_constructColoredLoggerMessage_def p_getNonColorLogPrefix_def p_getColorPrefix_def
      p_getConstructedShortNonColorLogPrefix_def p_getConstructedLongNonColorLogPrefix_def
      Let_def split: prod.splits option.splits if_splits)


text \<open>
  Claim C4, as amended. \<open>_formatStackTrace\<close> of the \<open>stack\<close> of an error created with
  a message is the message, or \<open>Error\<close> where the message is empty, with the marker
  \<open>Error: \<close> gone from the first line, followed by the frames the runtime captured at
  the place, one a line. With at least one frame this text has two lines or more and
  is not the message; with no frame and a message that is not empty it is the message.
  At the level Trace the plain and the colored line of a message carry this text as
  their body, for the error created in the method that builds the line, with the input
  text formatted with its arguments as the message (the input text itself where there
  are no arguments). A call of \<open>trace\<close> with a valid message that passes the gate
  writes that line to the standard output when \<open>logToConsole\<close> is true, and appends
  the line built by \<open>_logLocally\<close>, with the frames of that place, to an open stream
  the logger holds whose \<open>write\<close> does not throw, when \<open>logToFileSystem\<close> is true.
\<close>

theorem trace_embeds_stack:
  "p_formatStackTrace (Error_stack env site formatted) =
     (if formatted = [] then ''Error'' else formatted)
     @ concat (map (\<lambda>f. CHR 0x0A # f) (stackFrames env site))
   \<and> stack_text env site formatted = p_formatStackTrace (Error_stack env site formatted)
   \<and> (stackFrames env site \<noteq> [] \<longrightarrow>
        stack_text env site formatted \<noteq> formatted \<and> CHR 0x0A \<in> set (stack_text env site formatted)
        \<and> 2 \<le> length (split_nl (stack_text env site formatted)))
   \<and> (stackFrames env site = [] \<longrightarrow> formatted \<noteq> [] \<longrightarrow> stack_text env site formatted = formatted)
   \<and> fst (p_constructLoggerMessage env cb this LogLevel_Trace format args) =
       ''['' @ p_getDateNowIsoString env @ '']''
       @ (if p_cutLogPrefix this then [] else ''['' @ p_getUptime env @ '']'')
       @ fst (p_getNonColorLogPrefix env this) @ ''[TRACE] ''
       @ stack_text env (In_constructLoggerMessage cb)
           (if length args = 0 then format else util_format env format args)
       @ [CHR 0x0A]
   \<and> fst (p_constructColoredLoggerMessage env this LogLevel_Trace color format args) =
       p_getDefaultColorSection env (p_getDateNowIsoString env)
       @ (if p_cutLogPrefix this then [] else p_getDefaultColorSection env (p_getUptime env))
       @ fst (p_getColorPrefix env this)
       @ p_getColorSection env color ''TRACE'' @ '' '' @ colorCode env color
       @ stack_text env In_constructColoredLoggerMessage
           (if length args = 0 then format else util_format env format args)
       @ colorCode env Reset @ [CHR 0x0A]
   \<and> (s \<noteq> [] \<longrightarrow> p_checkLogLevel this LogLevel_Trace \<longrightarrow> p_logToConsole this \<longrightarrow>
        (\<exists>rest.
           stdout (snd (snd (emit env Trace this (JString s) args io))) =
             stdout io @
               (if p_logWithColor this
                then p_getDefaultColorSection env (p_getDateNowIsoString env)
                     @ (if p_cutLogPrefix this then []
                        else p_getDefaultColorSection env (p_getUptime env))
                     @ fst (p_getColorPrefix env this)
                     @ p_getColorSection env BrightMagenta ''TRACE'' @ '' ''
                     @ colorCode env BrightMagenta
                     @ stack_text env In_constructColoredLoggerMessage
                         (if length args = 0 then s else util_format env s args)
                     @ colorCode env Reset @ [CHR 0x0A]
                else ''['' @ p_getDateNowIsoString env @ '']''
                     @ (if p_cutLogPrefix this then [] else ''['' @ p_getUptime env @ '']'')
                     @ fst (p_getNonColorLogPrefix env this) @ ''[TRACE] ''
                     @ stack_text env (In_constructLoggerMessage By_logConsole)
                         (if length args = 0 then s else util_format env s args)
                     @ [CHR 0x0A])
               # rest))
   \<and> (s \<noteq> [] \<longrightarrow> p_checkLogLevel this LogLevel_Trace \<longrightarrow> p_logToFileSystem this \<longrightarrow>
        p_lockedFileWriteStream this = Some sid \<longrightarrow> sid < length (streams io) \<longrightarrow>
        ws_writeThrows (streams io ! sid) = None \<longrightarrow>
        \<not> ws_ended (streams io ! sid) \<longrightarrow> \<not> ws_destroyed (streams io ! sid) \<longrightarrow>
        ws_written (streams (snd (snd (emit env Trace this (JString s) args io))) ! sid) =
          ws_written (streams io ! sid) @
            [''['' @ p_getDateNowIsoString env @ '']''
             @ (if p_cutLogPrefix this then [] else ''['' @ p_getUptime env @ '']'')
             @ fst (p_getNonColorLogPrefix env this) @ ''[TRACE] ''
             @ stack_text env (In_constructLoggerMessage By_logLocally)
                 (if length args = 0 then s else util_format env s args)
             @ [CHR 0x0A]])"
proof -
  have A: "p_formatStackTrace (Error_stack env site formatted) =
     (if formatted = [] then ''Error'' else formatted)
     @ concat (map (\<lambda>f. CHR 0x0A # f) (stackFrames env site))"
    by (simp add: p_formatStackTrace_stack stack_text_def)
  have B: "stack_text env site formatted = p_formatStackTrace (Error_stack env site formatted)"
    by (simp add: p_formatStackTrace_stack)
  have C: "stack_text env site formatted \<noteq> formatted \<and> CHR 0x0A \<in> set (stack_text env site formatted)
        \<and> 2 \<le> length (split_nl (stack_text env site formatted))"
    if ne: "stackFrames env site \<noteq> []"
  proof -
    obtain f fs where fr: "stackFrames env site = f # fs"
      using ne by (cases "stackFrames env site") auto
    define h where "h = (if formatted = [] then ''Error'' else formatted)"
    define r where "r = f @ concat (map (\<lambda>f. CHR 0x0A # f) fs)"
    have st: "stack_text env site formatted = h @ CHR 0x0A # r"
      by (simp add: stack_text_def fr h_def r_def)
    have len: "length (split_nl (a @ CHR 0x0A # b)) = length (split_nl a) + length (split_nl b)"
      for a b
      by (induction a) (auto simp: split_nl_nonempty split: list.splits)
    have "1 \<le> length (split_nl h)" "1 \<le> length (split_nl r)"
      using split_nl_nonempty [of h] split_nl_nonempty [of r]
      by (simp_all add: Suc_le_eq)
    then have "2 \<le> length (split_nl (stack_text env site formatted))"
      by (simp add: st len)
    moreover have "stack_text env site formatted \<noteq> formatted"
      by (auto simp: st h_def)
    ultimately show ?thesis
      by (simp add: st)
  qed
  have D: "stack_text env site formatted = formatted" if "stackFrames env site = []" "formatted \<noteq> []"
    using that by (simp add: stack_text_def)
  note E = plain_trace_line [of env cb this format args]
  note F = colored_trace_line [of env this color format args]
  have em: "emit env Trace this (JString s) args io =
      p_log env this LogLevel_Trace BrightMagenta s args io"
    if "s \<noteq> []" "p_checkLogLevel this LogLevel_Trace"
    using that emit_valid [of s env Trace this args io] by simp
  obtain t1 i1 where c1: "p_logConsole env this LogLevel_Trace BrightMagenta s args io = (t1, i1)"
    by (cases "p_logConsole env this LogLevel_Trace BrightMagenta s args io")
  obtain r t2 i2 where c2: "p_logLocally env t1 LogLevel_Trace s args i1 = (r, t2, i2)"
    by (cases "p_logLocally env t1 LogLevel_Trace s args i1")
  have pl: "p_log env this LogLevel_Trace BrightMagenta s args io = (r, t2, i2)"
    using c1 c2 by (simp add: p_log.simps)
  note f1 = cache_le_fields [OF p_logConsole_le [OF c1]]
  note loc = p_logLocally_console [OF c2]
  note io1 = p_logConsole_io [OF c1]
  have G: "\<exists>rest.
      stdout (snd (snd (emit env Trace this (JString s) args io))) =
        stdout io @
          (if p_logWithColor this
           then p_getDefaultColorSection env (p_getDateNowIsoString env)
                @ (if p_cutLogPrefix this then []
                   else p_getDefaultColorSection env (p_getUptime env))
                @ fst (p_getColorPrefix env this)
                @ p_getColorSection env BrightMagenta ''TRACE'' @ '' ''
                @ colorCode env BrightMagenta
                @ stack_text env In_constructColoredLoggerMessage
                    (if length args = 0 then s else util_format env s args)
                @ colorCode env Reset @ [CHR 0x0A]
           else ''['' @ p_getDateNowIsoString env @ '']''
                @ (if p_cutLogPrefix this then [] else ''['' @ p_getUptime env @ '']'')
                @ fst (p_getNonColorLogPrefix env this) @ ''[TRACE] ''
                @ stack_text env (In_constructLoggerMessage By_logConsole)
                    (if length args = 0 then s else util_format env s args)
                @ [CHR 0x0A])
          # rest"
    if "s \<noteq> []" "p_checkLogLevel this LogLevel_Trace" "p_logToConsole this"
  proof -
    obtain rest where rest: "stdout i2 = stdout i1 @ rest"
      using loc by auto
    have i1: "stdout i1 = stdout io @
        [fst (if p_logWithColor this
              then p_constructColoredLoggerMessage env this LogLevel_Trace BrightMagenta s args
              else p_constructLoggerMessage env By_logConsole this LogLevel_Trace s args)]"
      using p_logConsole_on [OF that(3) c1] by simp
    have "stdout (snd (snd (emit env Trace this (JString s) args io))) = stdout i1 @ rest"
      using that(1,2) em pl rest by (simp del: emit.simps)
    then show ?thesis
      unfolding i1
      using plain_trace_line [of env By_logConsole this s args]
        colored_trace_line [of env this BrightMagenta s args]
      by (cases "p_logWithColor this") simp_all
  qed
  have H: "ws_written (streams (snd (snd (emit env Trace this (JString s) args io))) ! sid) =
      ws_written (streams io ! sid) @
        [''['' @ p_getDateNowIsoString env @ '']''
         @ (if p_cutLogPrefix this then [] else ''['' @ p_getUptime env @ '']'')
         @ fst (p_getNonColorLogPrefix env this) @ ''[TRACE] ''
         @ stack_text env (In_constructLoggerMessage By_logLocally)
             (if length args = 0 then s else util_format env s args)
         @ [CHR 0x0A]]"
    if "s \<noteq> []" "p_checkLogLevel this LogLevel_Trace" "p_logToFileSystem this"
      "p_lockedFileWriteStream this = Some sid" "sid < length (streams io)"
      "ws_writeThrows (streams io ! sid) = None"
      "\<not> ws_ended (streams io ! sid)" "\<not> ws_destroyed (streams io ! sid)"
  proof -
    have st: "p_logToFileSystem t1" "p_lockedFileWriteStream t1 = Some sid"
      "sid < length (streams i1)" "ws_writeThrows (streams i1 ! sid) = None"
      "\<not> ws_ended (streams i1 ! sid)" "\<not> ws_destroyed (streams i1 ! sid)"
      using that f1 io1 by simp_all
    have "i2 = i1\<lparr>streams := (streams i1)[sid := (streams i1 ! sid)
              \<lparr>ws_written := ws_written (streams i1 ! sid) @
                 [fst (p_constructLoggerMessage env By_logLocally t1 LogLevel_Trace s args)]\<rparr>]\<rparr>"
      using c2 p_logLocally_write_ok [OF st, of env LogLevel_Trace s args] by simp
    then have w: "ws_written (streams i2 ! sid) =
        ws_written (streams io ! sid) @
          [fst (p_constructLoggerMessage env By_logLocally t1 LogLevel_Trace s args)]"
      using io1 that(5) by simp
    have t1: "t1 = fst (p_logConsole env this LogLevel_Trace BrightMagenta s args io)"
      using c1 by simp
    have pre: "fst (p_getNonColorLogPrefix env t1) = fst (p_getNonColorLogPrefix env this)"
      unfolding t1 by (rule p_logConsole_prefix)
    have "ws_written (streams (snd (snd (emit env Trace this (JString s) args io))) ! sid) =
        ws_written (streams i2 ! sid)"
      using that(1,2) em pl by (simp del: emit.simps)
    then show ?thesis
      unfolding w
      using plain_trace_line [of env By_logLocally t1 s args] pre f1
      by simp
  qed
  show ?thesis
    using A B C D E F G H by blast
qed


theorem trace_embeds_stack_witness:
  "stackFrames example_env (In_constructLoggerMessage By_logConsole) \<noteq> []
   \<and> ''hi %s'' \<noteq> [] \<and> p_checkLogLevel file_logger LogLevel_Trace
   \<and> p_logToConsole file_logger \<and> p_logToFileSystem file_logger
   \<and> p_lockedFileWriteStream file_logger = Some 0
   \<and> p_formatStackTrace
        (Error_stack example_env (In_constructLoggerMessage By_logConsole) ''hi x'') =
       ''hi x'' @ [CHR 0x0A] @ ''    at Logger._constructLoggerMessage (index.js:1:1)''
       @ [CHR 0x0A] @ ''    at Logger._logConsole (index.js:2:2)''
   \<and> 2 \<le> length (split_nl
        (stack_text example_env (In_constructLoggerMessage By_logConsole) ''hi x''))
   \<and> stdout (snd (snd (emit example_env Trace file_logger (JString ''hi %s'') [JString ''x'']
        open_io))) =
       [''[2022-01-01T00:00:00.000Z][10.0.0.1][host][logger][TRACE] hi x'' @ [CHR 0x0A]
        @ ''    at Logger._constructLoggerMessage (index.js:1:1)'' @ [CHR 0x0A]
        @ ''    at Logger._logConsole (index.js:2:2)'' @ [CHR 0x0A]]
   \<and> ws_written (streams (snd (snd (emit example_env Trace file_logger (JString ''hi %s'')
        [JString ''x''] open_io))) ! 0) =
       [''[2022-01-01T00:00:00.000Z][10.0.0.1][host][logger][TRACE] hi x'' @ [CHR 0x0A]
        @ ''    at Logger._constructLoggerMessage (index.js:1:1)'' @ [CHR 0x0A]
        @ ''    at Logger._logLocally (index.js:3:3)'' @ [CHR 0x0A]]"
proof -
  note th = trace_embeds_stack [where env = example_env and this = file_logger
      and s = "''hi %s''" and args = "[JString ''x'']" and io = open_io and sid = 0
      and site = "In_constructLoggerMessage By_logConsole" and formatted = "''hi x''"]
  have fr: "stackFrames example_env (In_constructLoggerMessage By_logConsole) \<noteq> []"
    by (simp add: example_env_def)
  have h: "''hi %s'' \<noteq> []" "p_checkLogLevel file_logger LogLevel_Trace"
    "p_logToConsole file_logger" "p_logToFileSystem file_logger"
    "p_lockedFileWriteStream file_logger = Some 0" "0 < length (streams open_io)"
    "ws_writeThrows (streams open_io ! 0) = None" "\<not> ws_ended (streams open_io ! 0)"
    "\<not> ws_destroyed (streams open_io ! 0)"
    by code_simp+
  have "p_formatStackTrace
        (Error_stack example_env (In_constructLoggerMessage By_logConsole) ''hi x'') =
      (if ''hi x'' = [] then ''Error'' else ''hi x'')
      @ concat (map (\<lambda>f. CHR 0x0A # f)
          (stackFrames example_env (In_constructLoggerMessage By_logConsole)))"
    using th by blast
  then have body: "p_formatStackTrace
        (Error_stack example_env (In_constructLoggerMessage By_logConsole) ''hi x'') =
       ''hi x'' @ [CHR 0x0A] @ ''    at Logger._constructLoggerMessage (index.js:1:1)''
       @ [CHR 0x0A] @ ''    at Logger._logConsole (index.js:2:2)''"
    by (simp add: example_env_def)
  have lines: "2 \<le> length (split_nl
        (stack_text example_env (In_constructLoggerMessage By_logConsole) ''hi x''))"
    using th fr by blast
  have "ws_written (streams (snd (snd (emit example_env Trace file_logger (JString ''hi %s'')
        [JString ''x''] open_io))) ! 0) =
      ws_written (streams open_io ! 0) @
        [''['' @ p_getDateNowIsoString example_env @ '']''
         @ (if p_cutLogPrefix file_logger then []
            else ''['' @ p_getUptime example_env @ '']'')
         @ fst (p_getNonColorLogPrefix example_env file_logger) @ ''[TRACE] ''
         @ stack_text example_env (In_constructLoggerMessage By_logLocally)
             (if length [JString ''x''] = 0 then ''hi %s''
              else util_format example_env ''hi %s'' [JString ''x''])
         @ [CHR 0x0A]]"
    using th h by blast
  moreover have "ws_written (streams open_io ! 0) @
        [''['' @ p_getDateNowIsoString example_env @ '']''
         @ (if p_cutLogPrefix file_logger then []
            else ''['' @ p_getUptime example_env @ '']'')
         @ fst (p_getNonColorLogPrefix example_env file_logger) @ ''[TRACE] ''
         @ stack_text example_env (In_constructLoggerMessage By_logLocally)
             (if length [JString ''x''] = 0 then ''hi %s''
              else util_format example_env ''hi %s'' [JString ''x''])
         @ [CHR 0x0A]] =
       [''[2022-01-01T00:00:00.000Z][10.0.0.1][host][logger][TRACE] hi x'' @ [CHR 0x0A]
        @ ''    at Logger._constructLoggerMessage (index.js:1:1)'' @ [CHR 0x0A]
        @ ''    at Logger._logLocally (index.js:3:3)'' @ [CHR 0x0A]]"
    by code_simp
  ultimately have fil: "ws_written (streams (snd (snd (emit example_env Trace file_logger
        (JString ''hi %s'') [JString ''x''] open_io))) ! 0) =
       [''[2022-01-01T00:00:00.000Z][10.0.0.1][host][logger][TRACE] hi x'' @ [CHR 0x0A]
        @ ''    at Logger._constructLoggerMessage (index.js:1:1)'' @ [CHR 0x0A]
        @ ''    at Logger._logLocally (index.js:3:3)'' @ [CHR 0x0A]]"
    by (rule trans)
  have out: "stdout (snd (snd (emit example_env Trace file_logger (JString ''hi %s'')
        [JString ''x''] open_io))) =
       [''[2022-01-01T00:00:00.000Z][10.0.0.1][host][logger][TRACE] hi x'' @ [CHR 0x0A]
        @ ''    at Logger._constructLoggerMessage (index.js:1:1)'' @ [CHR 0x0A]
        @ ''    at Logger._logConsole (index.js:2:2)'' @ [CHR 0x0A]]"
    by code_simp
  show ?thesis
    using fr h(1-5) body lines out fil by (intro conjI) assumption+
qed

text \<open>
  Claim C4 as stated fails where the runtime captures no frame: the body of the line of
  \<open>trace\<close> is the input text alone, on one line, as in the line of \<open>debug\<close>.
\<close>

theorem trace_without_frames_counterexample:
  "p_checkLogLevel example_logger LogLevel_Trace
   \<and> stackFrames frameless_env (In_constructLoggerMessage By_logConsole) = []
   \<and> p_formatStackTrace
        (Error_stack frameless_env (In_constructLoggerMessage By_logConsole) ''message'') =
       ''message''
   \<and> emit frameless_env Trace example_logger (JString ''message'') [] initial_io =
       (None,
        example_logger\<lparr>p_cachedNonColorPrefix := Some ''[10.0.0.1][host][logger]''\<rparr>,
        initial_io\<lparr>stdout :=
          [''[2022-01-01T00:00:00.000Z][10.0.0.1][host][logger][TRACE] message''
           @ [CHR 0x0A]]\<rparr>)
   \<and> emit frameless_env Debug example_logger (JString ''message'') [] initial_io =
       (None,
        example_logger\<lparr>p_cachedNonColorPrefix := Some ''[10.0.0.1][host][logger]''\<rparr>,
        initial_io\<lparr>stdout :=
          [''[2022-01-01T00:00:00.000Z][10.0.0.1][host][logger][DEBUG] message''
           @ [CHR 0x0A]]\<rparr>)"
  by code_simp

end
